theory Spec2Isabelle
  imports Complex_Main "HOL-Library.Multiset"
begin

section \<open>JavaScript values used by the page\<close>

text \<open>
  The page (\<^verbatim>\<open>src/index.tsx\<close>) is a set of event handlers over module-level variables and
  DOM elements. The embedding keeps the module variables and the DOM properties the handlers
  read or write in one record, and turns every handler into a function on that record.

  A string is the list of its UTF-16 code units (numbers below 65536; nothing depends on the
  bound): two strings are \<^verbatim>\<open>===\<close> when the lists are equal, \<^verbatim>\<open>+\<close> appends them, and \<^verbatim>\<open>.length\<close>
  is the length of the list. \<open>str\<close> gives the string of an ASCII literal of the source.
\<close>

type_synonym js_string = "nat list"

definition str :: "string \<Rightarrow> js_string" where
  "str s = map of_char s"

text \<open>A number is an IEEE double: a finite real (\<open>Finite 0\<close> is \<open>+0\<close>), \<open>-0\<close>, an infinity or \<^verbatim>\<open>NaN\<close>.\<close>

datatype js_number = Finite real | NegativeZero | Infinity | NegativeInfinity | NaN

text \<open>
  The values \<^verbatim>\<open>JSON.parse\<close> returns. \<open>JObject kv\<close> is the object whose own property \<open>k\<close> has the
  value \<open>map_of kv k\<close>; it inherits from \<^verbatim>\<open>Object.prototype\<close> only. A variable or property that
  may also be \<^verbatim>\<open>undefined\<close> has the type \<open>json option\<close>, with \<open>None\<close> for \<^verbatim>\<open>undefined\<close>.
\<close>

datatype json =
    JNull
  | JBool bool
  | JNumber js_number
  | JString js_string
  | JArray "json list"
  | JObject "(js_string \<times> json) list"

text \<open>
  The functions of the JavaScript engine that the page relies on and that are not code of the
  page: \<^verbatim>\<open>String.prototype.trim\<close> and \<^verbatim>\<open>String.prototype.toLowerCase\<close>, which follow the Unicode
  tables of the engine; the conversion of a number to a string and of a string to a number;
  the value of \<^verbatim>\<open>a / x < 0.6\<close> in double arithmetic for a number \<open>x\<close>; and the message
  of the TypeError that the engine throws for a failing expression and the value it failed
  on. They are parameters of the handlers: what is proved of the page holds for every engine.
\<close>

record engine =
  trim :: "js_string \<Rightarrow> js_string"
  toLowerCase :: "js_string \<Rightarrow> js_string"
  NumberToString :: "js_number \<Rightarrow> js_string"
  StringToNumber :: "js_string \<Rightarrow> js_number"
  quotientBelow06 :: "nat \<Rightarrow> js_number \<Rightarrow> bool"
  typeErrorMessage :: "js_string \<Rightarrow> json option \<Rightarrow> js_string"

datatype js_error =
    ErrorObject js_string  \<comment> \<open>an instance of Error (TypeError and SyntaxError included) and its message\<close>
  | NonError               \<comment> \<open>a thrown or rejected value that is not an Error\<close>

text \<open>The TypeError thrown for the expression \<open>e\<close> of the source failing on the value \<open>v\<close>.\<close>

definition TypeError :: "engine \<Rightarrow> string \<Rightarrow> json option \<Rightarrow> js_error" where
  "TypeError js e v = ErrorObject (typeErrorMessage js (str e) v)"

text \<open>
  A handler either runs to its end or throws; in both cases the assignments made so far
  stay in the page's state.
\<close>

datatype 's completion = Normal 's | Throw js_error 's

fun state_of :: "'s completion \<Rightarrow> 's" where
  "state_of (Normal s) = s"
| "state_of (Throw e s) = s"

fun throws :: "'s completion \<Rightarrow> bool" where
  "throws (Normal s) = False"
| "throws (Throw e s) = True"

text \<open>\<^verbatim>\<open>ToBoolean\<close>: what \<^verbatim>\<open>!v\<close> and \<^verbatim>\<open>v && ...\<close> test.\<close>

fun truthy :: "json \<Rightarrow> bool" where
  "truthy JNull = False"
| "truthy (JBool b) = b"
| "truthy (JNumber x) = (x \<noteq> Finite 0 \<and> x \<noteq> NegativeZero \<and> x \<noteq> NaN)"
| "truthy (JString s) = (s \<noteq> [])"
| "truthy (JArray xs) = True"
| "truthy (JObject kv) = True"

text \<open>
  Indexing an array out of range yields \<^verbatim>\<open>undefined\<close>. Reading a property of \<^verbatim>\<open>undefined\<close> or
  \<^verbatim>\<open>null\<close> throws a TypeError; the handlers test for that where they read one.
\<close>

definition elemAt :: "'a list \<Rightarrow> nat \<Rightarrow> 'a option" where
  "elemAt xs i = (if i < length xs then Some (xs ! i) else None)"

text \<open>
  What the handlers need a value to be before they go on: \<open>nonNull v\<close> is \<open>v\<close> when its
  properties can be read, that is, when it is neither \<^verbatim>\<open>undefined\<close> nor \<^verbatim>\<open>null\<close>; \<open>asArray v\<close> is
  the list of its elements when \<open>v\<close> is an array, the only values with a method \<^verbatim>\<open>forEach\<close>;
  \<open>asString v\<close> is \<open>v\<close> when it is a string, the only values with a method \<^verbatim>\<open>trim\<close>.
\<close>

fun nonNull :: "json option \<Rightarrow> json option" where
  "nonNull (Some JNull) = None"
| "nonNull v = v"

fun asArray :: "json option \<Rightarrow> json list option" where
  "asArray (Some (JArray xs)) = Some xs"
| "asArray v = None"

fun asString :: "json option \<Rightarrow> js_string option" where
  "asString (Some (JString s)) = Some s"
| "asString v = None"

text \<open>
  \<open>property v k\<close> is \<^verbatim>\<open>v.k\<close> for a value \<open>v\<close> other than \<^verbatim>\<open>null\<close> and for the names the page reads
  besides \<^verbatim>\<open>length\<close>: \<^verbatim>\<open>questions\<close>, \<^verbatim>\<open>question\<close>, \<^verbatim>\<open>options\<close>, \<^verbatim>\<open>correctAnswer\<close>, \<^verbatim>\<open>flashcards\<close>,
  \<^verbatim>\<open>term\<close> and \<^verbatim>\<open>definition\<close>. Only an object can have one of them: a boolean, a number, a
  string and an array inherit none of these names.
\<close>

definition property :: "json \<Rightarrow> string \<Rightarrow> json option" where
  "property v k = (case v of JObject kv \<Rightarrow> map_of kv (str k) | _ \<Rightarrow> None)"

text \<open>
  \<open>lengthProp v\<close> is \<^verbatim>\<open>v.length\<close> for a value \<open>v\<close> other than \<^verbatim>\<open>null\<close>: a number for an array and
  for a string, the property of that name for an object, \<^verbatim>\<open>undefined\<close> for a boolean and a
  number.
\<close>

definition lengthProp :: "json \<Rightarrow> json option" where
  "lengthProp v =
     (case v of
        JArray xs \<Rightarrow> Some (JNumber (Finite (real (length xs))))
      | JString s \<Rightarrow> Some (JNumber (Finite (real (length s))))
      | JObject kv \<Rightarrow> map_of kv (str ''length'')
      | _ \<Rightarrow> None)"

text \<open>The decimal digits of an index: the name of the property that \<^verbatim>\<open>v[i]\<close> reads of an object.\<close>

function decimal :: "nat \<Rightarrow> js_string" where
  "decimal n = (if n < 10 then [48 + n] else decimal (n div 10) @ [48 + n mod 10])"
  by pat_completeness auto
termination
  by (relation "measure id") auto

declare decimal.simps [simp del]

text \<open>
  \<open>element v i\<close> is \<^verbatim>\<open>v[i]\<close> for a value \<open>v\<close> other than \<^verbatim>\<open>null\<close>: an element of an array, a code
  unit of a string, the property of an object named by the digits of \<open>i\<close>.
\<close>

definition element :: "json \<Rightarrow> nat \<Rightarrow> json option" where
  "element v i =
     (case v of
        JArray xs \<Rightarrow> elemAt xs i
      | JString s \<Rightarrow> map_option (\<lambda>c. JString [c]) (elemAt s i)
      | JObject kv \<Rightarrow> map_of kv (decimal i)
      | _ \<Rightarrow> None)"

text \<open>
  \<^verbatim>\<open>ToString\<close>, as a template literal and the setter of \<^verbatim>\<open>textContent\<close> apply it; \<open>None\<close> when it
  throws a TypeError. An array is converted by \<^verbatim>\<open>Array.prototype.join\<close>, which converts the
  elements in turn and writes nothing for \<^verbatim>\<open>null\<close>. An object is converted by
  \<^verbatim>\<open>Object.prototype.toString\<close>, unless it has an own property \<^verbatim>\<open>toString\<close>: a value of JSON is
  not callable, \<^verbatim>\<open>valueOf\<close> does not return a primitive value either, and the conversion throws.
\<close>

fun ToString :: "engine \<Rightarrow> json \<Rightarrow> js_string option"
  and join :: "engine \<Rightarrow> json list \<Rightarrow> js_string option" where
  "ToString js JNull = Some (str ''null'')"
| "ToString js (JBool b) = Some (if b then str ''true'' else str ''false'')"
| "ToString js (JNumber x) = Some (NumberToString js x)"
| "ToString js (JString s) = Some s"
| "ToString js (JArray xs) = join js xs"
| "ToString js (JObject kv) =
     (if map_of kv (str ''toString'') = None then Some (str ''[object Object]'') else None)"
| "join js [] = Some []"
| "join js (x # xs) =
     (case (if x = JNull then Some [] else ToString js x) of
        None \<Rightarrow> None
      | Some a \<Rightarrow>
          if xs = [] then Some a
          else (case join js xs of None \<Rightarrow> None | Some b \<Rightarrow> Some (a @ str '','' @ b)))"

text \<open>
  \<^verbatim>\<open>ToNumber\<close>, as \<^verbatim>\<open><\<close>, \<^verbatim>\<open>>\<close>, \<^verbatim>\<open>>=\<close> and \<^verbatim>\<open>/\<close> apply it to an operand that is compared with a
  number or divided; \<open>None\<close> when it throws. An array and an object are first converted to a
  string as above.
\<close>

definition ToNumber :: "engine \<Rightarrow> json \<Rightarrow> js_number option" where
  "ToNumber js v =
     (case v of
        JNull \<Rightarrow> Some (Finite 0)
      | JBool b \<Rightarrow> Some (Finite (if b then 1 else 0))
      | JNumber x \<Rightarrow> Some x
      | _ \<Rightarrow> map_option (StringToNumber js) (ToString js v))"

text \<open>
  The same conversions of a value that may be \<^verbatim>\<open>undefined\<close>. The setter of \<^verbatim>\<open>textContent\<close> takes
  \<^verbatim>\<open>null\<close> and \<^verbatim>\<open>undefined\<close> for the empty string.
\<close>

definition to_number :: "engine \<Rightarrow> json option \<Rightarrow> js_number option" where
  "to_number js v = (case v of None \<Rightarrow> Some NaN | Some w \<Rightarrow> ToNumber js w)"

definition to_string :: "engine \<Rightarrow> json option \<Rightarrow> js_string option" where
  "to_string js v = (case v of None \<Rightarrow> Some (str ''undefined'') | Some w \<Rightarrow> ToString js w)"

definition domString :: "engine \<Rightarrow> json option \<Rightarrow> js_string option" where
  "domString js v = (case v of None \<Rightarrow> Some [] | Some JNull \<Rightarrow> Some [] | Some w \<Rightarrow> ToString js w)"

text \<open>
  \<^verbatim>\<open>v.length\<close> converted to a number and to a string, for a variable \<open>v\<close>; \<open>None\<close> when reading
  the property throws (\<open>v\<close> is \<^verbatim>\<open>null\<close>) or the conversion does. \<open>lengthIsZero\<close> is
  \<^verbatim>\<open>v.length === 0\<close>, which converts nothing.
\<close>

definition lengthNumber :: "engine \<Rightarrow> json \<Rightarrow> js_number option" where
  "lengthNumber js v = (if v = JNull then None else to_number js (lengthProp v))"

definition lengthText :: "engine \<Rightarrow> json \<Rightarrow> js_string option" where
  "lengthText js v = (if v = JNull then None else to_string js (lengthProp v))"

definition lengthIsZero :: "json \<Rightarrow> bool" where
  "lengthIsZero v =
     (lengthProp v = Some (JNumber (Finite 0)) \<or> lengthProp v = Some (JNumber NegativeZero))"

text \<open>\<open>less_than r x\<close> is \<^verbatim>\<open>r < x\<close> and \<open>at_least r x\<close> is \<^verbatim>\<open>r >= x\<close> for a finite \<open>r\<close>; both are false of \<^verbatim>\<open>NaN\<close>.\<close>

fun less_than :: "real \<Rightarrow> js_number \<Rightarrow> bool" where
  "less_than r (Finite x) = (r < x)"
| "less_than r NegativeZero = (r < 0)"
| "less_than r Infinity = True"
| "less_than r NegativeInfinity = False"
| "less_than r NaN = False"

fun at_least :: "real \<Rightarrow> js_number \<Rightarrow> bool" where
  "at_least r (Finite x) = (r \<ge> x)"
| "at_least r NegativeZero = (r \<ge> 0)"
| "at_least r Infinity = False"
| "at_least r NegativeInfinity = True"
| "at_least r NaN = False"

definition updateAt :: "nat \<Rightarrow> ('a \<Rightarrow> 'a) \<Rightarrow> 'a list \<Rightarrow> 'a list" where
  "updateAt i f xs = (if i < length xs then xs[i := f (xs ! i)] else xs)"

text \<open>
  \<^verbatim>\<open>xs.forEach(f)\<close> for a callback that appends one element to a list or throws: the elements
  appended, and the error that ended the loop, if one did.
\<close>

fun forEach :: "('a \<Rightarrow> js_error + 'b) \<Rightarrow> 'a list \<Rightarrow> 'b list \<times> js_error option" where
  "forEach f [] = ([], None)"
| "forEach f (x # xs) =
     (case f x of
        Inl e \<Rightarrow> ([], Some e)
      | Inr y \<Rightarrow> (y # fst (forEach f xs), snd (forEach f xs)))"

section \<open>Data model (the interfaces of index.tsx)\<close>

text \<open>
  \<^verbatim>\<open>HistoryItem extends ActiveFile\<close>; every value ever assigned to \<^verbatim>\<open>activeFile\<close> is a
  HistoryItem, so one record serves both. The field \<^verbatim>\<open>id\<close> is called \<open>item_id\<close>.
  \<^verbatim>\<open>timestamp\<close> is written by \<^verbatim>\<open>new Date().toISOString()\<close> only and read through
  \<^verbatim>\<open>new Date(timestamp).getTime()\<close> only; it is kept as that number of milliseconds.
\<close>

record HistoryItem =
  item_id :: js_string
  name :: js_string
  content :: js_string
  mimeType :: js_string
  timestamp :: int

text \<open>
  The interfaces \<^verbatim>\<open>QuizQuestion\<close> and \<^verbatim>\<open>Flashcard\<close> describe what the service is asked for. At
  run time \<^verbatim>\<open>quizQuestions\<close> and \<^verbatim>\<open>flashcards\<close> hold whatever \<^verbatim>\<open>JSON.parse\<close> returned for the
  property \<^verbatim>\<open>questions\<close> or \<^verbatim>\<open>flashcards\<close> of the reply: TypeScript checks nothing there, and
  neither does the page, so both variables are values of JSON, and the handlers read
  \<^verbatim>\<open>question\<close>, \<^verbatim>\<open>options\<close>, \<^verbatim>\<open>correctAnswer\<close>, \<^verbatim>\<open>term\<close> and \<^verbatim>\<open>definition\<close> from whatever the
  elements are. \<open>asQuizQuestion\<close> reads a value as a question of the interface, when it is
  one: an object with a string \<^verbatim>\<open>question\<close>, an array of strings \<^verbatim>\<open>options\<close> and a string
  \<^verbatim>\<open>correctAnswer\<close>; \<open>questionJSON\<close> and \<open>flashcardJSON\<close> write one down.
\<close>

record QuizQuestion =
  question :: js_string
  options :: "js_string list"
  correctAnswer :: js_string

record Flashcard =
  card_term :: js_string
  card_definition :: js_string

definition asQuizQuestion :: "json \<Rightarrow> QuizQuestion option" where
  "asQuizQuestion v =
     (case (asString (property v ''question''), asArray (property v ''options''),
            asString (property v ''correctAnswer'')) of
        (Some q, Some os, Some c) \<Rightarrow>
          map_option (\<lambda>opts. \<lparr>question = q, options = opts, correctAnswer = c\<rparr>)
            (those (map (\<lambda>opt. asString (Some opt)) os))
      | _ \<Rightarrow> None)"

definition questionJSON :: "QuizQuestion \<Rightarrow> json" where
  "questionJSON q =
     JObject [(str ''question'', JString (question q)),
              (str ''options'', JArray (map JString (options q))),
              (str ''correctAnswer'', JString (correctAnswer q))]"

definition flashcardJSON :: "Flashcard \<Rightarrow> json" where
  "flashcardJSON c =
     JObject [(str ''term'', JString (card_term c)),
              (str ''definition'', JString (card_definition c))]"

text \<open>
  An entry of \<^verbatim>\<open>incorrectAnswers\<close>. Its question is \<^verbatim>\<open>quizQuestions[currentQuestionIndex]\<close>,
  which is \<^verbatim>\<open>undefined\<close> when there is no such element. Its selected answer is a string:
  \<open>handleOptionClick\<close> has called \<^verbatim>\<open>trim\<close> on it before it stores it.
\<close>

record Mistake =
  mistake_question :: "json option"
  selected :: js_string

text \<open>
  A button of \<^verbatim>\<open>quizOptionsEl\<close>: its text, its \<^verbatim>\<open>disabled\<close> property, the classes
  \<^verbatim>\<open>correct\<close> and \<^verbatim>\<open>incorrect\<close>, and the arguments \<^verbatim>\<open>(option, question.correctAnswer)\<close> its
  click listener calls \<open>handleOptionClick\<close> with (\<open>None\<close> for the buttons of the review, which
  get no listener).
\<close>

record option_button =
  textContent :: js_string
  disabled :: bool
  class_correct :: bool
  class_incorrect :: bool
  listener :: "(json \<times> json option) option"

text \<open>
  What one click on \<^verbatim>\<open>startGameBtn\<close> creates: its AbortController, its
  \<^verbatim>\<open>loadingInterval\<close> and \<^verbatim>\<open>messageIndex\<close>.
\<close>

record generation =
  aborted :: bool
  intervalActive :: bool
  messageIndex :: nat

text \<open>
  The reply of \<^verbatim>\<open>ai.models.generateContent\<close>: the call rejects with a value; or
  \<^verbatim>\<open>JSON.parse(response.text)\<close> throws a SyntaxError with a message; or it returns a value.
\<close>

datatype reply = Rejected js_error | NotJSON js_string | Parsed json

text \<open>How an IndexedDB operation ends: it succeeds, the database cannot be opened, or the transaction fails.\<close>

datatype db_outcome = DbOk | OpenFails | TransactionFails

section \<open>The state of the page\<close>

record page =
  \<comment> \<open>module variables\<close>
  activeFile :: "HistoryItem option"
  history :: "HistoryItem list"
  quizQuestions :: json
  incorrectAnswers :: "Mistake list"
  currentQuestionIndex :: nat
  score :: nat
  isReviewingMistakes :: bool
  flashcards :: json
  currentCardIndex :: nat
  knownCardsCount :: nat
  \<comment> \<open>the object store \<^verbatim>\<open>history\<close> of IndexedDB, as \<^verbatim>\<open>getAll\<close> returns it\<close>
  objectStore :: "HistoryItem list"
  \<comment> \<open>calls of \<^verbatim>\<open>ai.models.generateContent\<close> made so far, timers of the quiz set and not
      yet fired, the generations of flashcards, and the generations whose \<^verbatim>\<open>abortHandler\<close> is
      attached to \<^verbatim>\<open>exitGameLoadingBtn\<close>\<close>
  gatewayCalls :: nat
  quizTimeouts :: nat
  generations :: "generation list"
  exitListeners :: "nat list"
  \<comment> \<open>class \<^verbatim>\<open>hidden\<close>\<close>
  qaSection_hidden :: bool
  answerSection_hidden :: bool
  quizSection_hidden :: bool
  resultsSection_hidden :: bool
  gameSection_hidden :: bool
  quizLoadingContainer_hidden :: bool
  quizContentContainer_hidden :: bool
  scoreDisplayEl_hidden :: bool
  nextQuestionBtn_hidden :: bool
  reviewMistakesBtn_hidden :: bool
  gameLoadingContainer_hidden :: bool
  gameContainer_hidden :: bool
  gameControls_hidden :: bool
  gameResultsSection_hidden :: bool
  \<comment> \<open>property \<^verbatim>\<open>disabled\<close>\<close>
  askBtn_disabled :: bool
  startQuizBtn_disabled :: bool
  startGameBtn_disabled :: bool
  \<comment> \<open>other DOM state\<close>
  quizOptionsEl :: "option_button list"
  quizQuestionEl :: js_string
  quizFeedbackEl :: js_string
  quizLoadingStatus :: js_string
  gameLoadingStatus :: js_string
  exitGameLoadingBtn_text :: js_string
  flashcard_flipped :: bool
  flashcardTermEl :: js_string
  flashcardDefinitionEl :: js_string
  statusEl :: js_string
  questionInput :: js_string
  sidebar_open :: bool

section \<open>Local history (IndexedDB)\<close>

text \<open>
  \<^verbatim>\<open>Array.prototype.sort\<close> with a comparator: a stable sort (ECMAScript 2019), \<open>a\<close> before
  \<open>b\<close> when \<open>cmp a b \<le> 0\<close> and \<open>a\<close> came first.
\<close>

fun insertBy :: "('a \<Rightarrow> 'a \<Rightarrow> int) \<Rightarrow> 'a \<Rightarrow> 'a list \<Rightarrow> 'a list" where
  "insertBy cmp x [] = [x]"
| "insertBy cmp x (y # ys) = (if cmp x y \<le> 0 then x # y # ys else y # insertBy cmp x ys)"

definition sortBy :: "('a \<Rightarrow> 'a \<Rightarrow> int) \<Rightarrow> 'a list \<Rightarrow> 'a list" where
  "sortBy cmp xs = foldr (insertBy cmp) xs []"

definition newestFirst :: "HistoryItem \<Rightarrow> HistoryItem \<Rightarrow> int" where
  "newestFirst a b = timestamp b - timestamp a"

definition loadHistoryFromDB :: "db_outcome \<Rightarrow> HistoryItem list \<Rightarrow> js_string + HistoryItem list" where
  "loadHistoryFromDB outcome store =
     (case outcome of
        OpenFails \<Rightarrow> Inl (str ''Error opening local study history database.'')
      | TransactionFails \<Rightarrow> Inl (str ''Error loading history from database.'')
      | DbOk \<Rightarrow> Inr (sortBy newestFirst store))"

definition clearHistoryDB :: "db_outcome \<Rightarrow> HistoryItem list \<Rightarrow> js_string + HistoryItem list" where
  "clearHistoryDB outcome store =
     (case outcome of
        OpenFails \<Rightarrow> Inl (str ''Error opening local study history database.'')
      | TransactionFails \<Rightarrow> Inl (str ''Error clearing history from database.'')
      | DbOk \<Rightarrow> Inr [])"

text \<open>
  \<^verbatim>\<open>clearHistory\<close>: the answer of \<^verbatim>\<open>confirm\<close> and the outcome of the database operation are
  inputs. \<^verbatim>\<open>renderHistory\<close> only redraws the list from \<^verbatim>\<open>history\<close> and \<^verbatim>\<open>activeFile\<close>.
\<close>

definition clearHistory :: "bool \<Rightarrow> db_outcome \<Rightarrow> page \<Rightarrow> page" where
  "clearHistory confirmed outcome s =
     (if confirmed then
        (case clearHistoryDB outcome (objectStore s) of
           Inr store' \<Rightarrow>
             s\<lparr>objectStore := store', history := [], activeFile := None,
               statusEl := str ''History cleared.'',
               askBtn_disabled := True, startQuizBtn_disabled := True, startGameBtn_disabled := True\<rparr>
         | Inl e \<Rightarrow> s\<lparr>statusEl := str ''Error clearing history.''\<rparr>)
      else s)"

definition closeSidebar :: "page \<Rightarrow> page" where
  "closeSidebar s = (if sidebar_open s then s\<lparr>sidebar_open := False\<rparr> else s)"

definition loadHistoryItem :: "js_string \<Rightarrow> page \<Rightarrow> page" where
  "loadHistoryItem i s =
     (case find (\<lambda>h. item_id h = i) (history s) of
        None \<Rightarrow> s
      | Some item \<Rightarrow>
          closeSidebar
            (s\<lparr>activeFile := Some item,
               statusEl := str ''Active material: \"'' @ name item @ str ''\"'',
               questionInput := [],
               answerSection_hidden := True, quizSection_hidden := True,
               resultsSection_hidden := True, gameSection_hidden := True,
               qaSection_hidden := False,
               askBtn_disabled := False, startQuizBtn_disabled := False,
               startGameBtn_disabled := False\<rparr>))"

section \<open>Reading the reply\<close>

text \<open>
  Both generators test the parsed reply in the same way: \<^verbatim>\<open>d && d.k && d.k.length > 0\<close>, for
  the variable \<open>d\<close> that holds the parsed reply \<open>data\<close> (\<^verbatim>\<open>quizData\<close>, \<^verbatim>\<open>gameData\<close>) and the
  name \<open>k\<close> (\<^verbatim>\<open>questions\<close>, \<^verbatim>\<open>flashcards\<close>). \<open>nonEmptyMember\<close> gives \<open>Inr (Some v)\<close> when the test
  holds, with \<open>v\<close> the value of \<^verbatim>\<open>d.k\<close>, \<open>Inr None\<close> when it does not, and \<open>Inl\<close> the
  TypeError when the conversion of the length to a number throws. A truthy value is not
  \<^verbatim>\<open>null\<close>, so reading its properties does not throw.
\<close>

definition nonEmptyMember :: "engine \<Rightarrow> string \<Rightarrow> json \<Rightarrow> string \<Rightarrow> js_error + json option" where
  "nonEmptyMember js d data k =
     (if \<not> truthy data then Inr None
      else
        (case property data k of
           None \<Rightarrow> Inr None
         | Some v \<Rightarrow>
             if \<not> truthy v then Inr None
             else
               (case lengthNumber js v of
                  None \<Rightarrow> Inl (TypeError js (d @ ''.'' @ k @ ''.length > 0'') (lengthProp v))
                | Some n \<Rightarrow> if less_than 0 n then Inr (Some v) else Inr None)))"

section \<open>Quiz\<close>

text \<open>
  \<^verbatim>\<open>score / quizQuestions.length\<close> on an array or a string is a quotient of two array-sized
  naturals: \<^verbatim>\<open>NaN\<close> for \<open>0 / 0\<close>, \<^verbatim>\<open>Infinity\<close> for \<open>n / 0\<close>, and otherwise the double nearest to the
  exact quotient. Compared with the literal \<^verbatim>\<open>0.6\<close>, that double gives the answer of the exact
  quotient compared with \<open>6/10\<close> (the two can differ only for a denominator beyond \<open>10^15\<close>),
  so the quotient is kept exact. On any other value the length is first converted to a
  number, and the engine divides and compares.
\<close>

definition js_div :: "nat \<Rightarrow> nat \<Rightarrow> js_number" where
  "js_div a b = (if b = 0 then (if a = 0 then NaN else Infinity) else Finite (real a / real b))"

fun js_less :: "js_number \<Rightarrow> real \<Rightarrow> bool" where
  "js_less (Finite x) c = (x < c)"
| "js_less NegativeZero c = (0 < c)"
| "js_less NegativeInfinity c = True"
| "js_less Infinity c = False"
| "js_less NaN c = False"

text \<open>\<^verbatim>\<open>a / v.length < 0.6\<close> for a value \<open>v\<close> other than \<^verbatim>\<open>null\<close>; \<open>None\<close> when the conversion throws.\<close>

definition quotientBelow :: "engine \<Rightarrow> nat \<Rightarrow> json \<Rightarrow> bool option" where
  "quotientBelow js a v =
     (case v of
        JArray xs \<Rightarrow> Some (js_less (js_div a (length xs)) (6 / 10))
      | JString s \<Rightarrow> Some (js_less (js_div a (length s)) (6 / 10))
      | _ \<Rightarrow> map_option (quotientBelow06 js a) (to_number js (lengthProp v)))"

text \<open>
  The labels \<^verbatim>\<open>questionProgressEl\<close>, \<^verbatim>\<open>scoreDisplayEl\<close>, \<^verbatim>\<open>finalScoreEl\<close>, \<^verbatim>\<open>cardProgressEl\<close> and
  \<^verbatim>\<open>gameResultsHeadingEl\<close> are written and never read: their text is left out, and so are the
  colours and \<^verbatim>\<open>alert\<close>. What is kept of a label is that building its text can throw.

  The callback of \<^verbatim>\<open>question.options.forEach\<close> in \<open>displayCurrentQuestion\<close>: the button it
  appends for \<open>option\<close>, or the error when \<^verbatim>\<open>button.textContent = option\<close> throws. The listener
  reads \<^verbatim>\<open>question.correctAnswer\<close> when the button is clicked; the value is the same then.
\<close>

definition newOptionButton :: "engine \<Rightarrow> json option \<Rightarrow> json \<Rightarrow> js_error + option_button" where
  "newOptionButton js correct option =
     (case domString js (Some option) of
        None \<Rightarrow> Inl (TypeError js ''button.textContent = option'' (Some option))
      | Some t \<Rightarrow>
          Inr \<lparr>textContent = t, disabled = False, class_correct = False, class_incorrect = False,
               listener = Some (option, correct)\<rparr>)"

definition displayCurrentQuestion :: "engine \<Rightarrow> page \<Rightarrow> page completion" where
  "displayCurrentQuestion js s =
     (if \<not> truthy (quizQuestions s) \<or> lengthIsZero (quizQuestions s) then Normal s
      else
        let q = element (quizQuestions s) (currentQuestionIndex s);
            s1 = s\<lparr>quizFeedbackEl := [], quizOptionsEl := [],
                   nextQuestionBtn_hidden := True, scoreDisplayEl_hidden := False\<rparr>
        in if lengthText js (quizQuestions s) = None
           then Throw (TypeError js ''questionProgressEl.textContent'' (lengthProp (quizQuestions s))) s1
           else
             (case nonNull q of
                None \<Rightarrow> Throw (TypeError js ''question.question'' q) s1
              | Some qu \<Rightarrow>
                  (case domString js (property qu ''question'') of
                     None \<Rightarrow>
                       Throw (TypeError js ''quizQuestionEl.textContent = question.question''
                                (property qu ''question'')) s1
                   | Some t \<Rightarrow>
                       let s2 = s1\<lparr>quizQuestionEl := t\<rparr> in
                       (case asArray (property qu ''options'') of
                          None \<Rightarrow>
                            Throw (TypeError js ''question.options.forEach''
                                     (property qu ''options'')) s2
                        | Some opts \<Rightarrow>
                            let r = forEach (newOptionButton js (property qu ''correctAnswer'')) opts;
                                s3 = s2\<lparr>quizOptionsEl := fst r\<rparr>
                            in (case snd r of None \<Rightarrow> Normal s3 | Some e \<Rightarrow> Throw e s3)))))"

text \<open>
  \<open>button\<close> is the position of the clicked button in \<^verbatim>\<open>quizOptionsEl\<close>. \<^verbatim>\<open>trim\<close> is a method of
  strings only: called on any other value, it throws, before anything is changed.
\<close>

definition handleOptionClick ::
  "engine \<Rightarrow> json \<Rightarrow> json option \<Rightarrow> nat \<Rightarrow> page \<Rightarrow> page completion" where
  "handleOptionClick js selectedAnswer correct button s =
     (case asString (Some selectedAnswer) of
        None \<Rightarrow> Throw (TypeError js ''selectedAnswer.trim()'' (Some selectedAnswer)) s
      | Some sel \<Rightarrow>
          (case asString correct of
             None \<Rightarrow> Throw (TypeError js ''correctAnswer.trim()'' correct) s
           | Some c \<Rightarrow>
               let isCorrect = (toLowerCase js (trim js sel) = toLowerCase js (trim js c));
                   finish = (\<lambda>s1. Normal (s1\<lparr>quizOptionsEl :=
                              map (\<lambda>b. if toLowerCase js (trim js (textContent b)) =
                                           toLowerCase js (trim js c)
                                        then b\<lparr>disabled := True, class_correct := True\<rparr>
                                        else b\<lparr>disabled := True\<rparr>)
                                  (quizOptionsEl s1),
                            nextQuestionBtn_hidden := False\<rparr>))
               in if isCorrect then
                    finish (s\<lparr>score := score s + 1,
                            quizFeedbackEl := str ''Correct!'',
                            quizOptionsEl :=
                              updateAt button (\<lambda>b. b\<lparr>class_correct := True\<rparr>) (quizOptionsEl s)\<rparr>)
                  else
                    let s1 = s\<lparr>quizFeedbackEl := str ''Incorrect! The correct answer was: '' @ c,
                               quizOptionsEl :=
                                 updateAt button (\<lambda>b. b\<lparr>class_incorrect := True\<rparr>) (quizOptionsEl s)\<rparr>
                    in if quizQuestions s = JNull
                       then Throw (TypeError js ''quizQuestions[currentQuestionIndex]'' (Some JNull)) s1
                       else
                         finish (s1\<lparr>incorrectAnswers :=
                                    incorrectAnswers s @
                                      [\<lparr>mistake_question =
                                          element (quizQuestions s) (currentQuestionIndex s),
                                        selected = sel\<rparr>]\<rparr>)))"

definition showResults :: "engine \<Rightarrow> page \<Rightarrow> page completion" where
  "showResults js s =
     (let s1 = s\<lparr>quizSection_hidden := True, resultsSection_hidden := False\<rparr> in
      if quizQuestions s = JNull
      then Throw (TypeError js ''quizQuestions.length'' (Some JNull)) s1
      else if lengthText js (quizQuestions s) = None
      then Throw (TypeError js ''finalScoreEl.textContent'' (lengthProp (quizQuestions s))) s1
      else
        (case quotientBelow js (score s) (quizQuestions s) of
           None \<Rightarrow> Throw (TypeError js ''score / quizQuestions.length'' (lengthProp (quizQuestions s))) s1
         | Some scoreBelow \<Rightarrow>
             Normal (s1\<lparr>reviewMistakesBtn_hidden :=
                          \<not> (scoreBelow \<and> length (incorrectAnswers s) > 0)\<rparr>)))"

text \<open>
  The callback of \<^verbatim>\<open>mistake.question.options.forEach\<close> in \<open>displayMistake\<close>: the button it
  appends for \<open>option\<close>, or the error when it throws, which it does when
  \<^verbatim>\<open>button.textContent = option\<close> throws, when \<open>option\<close> is not a string (\<^verbatim>\<open>option.trim()\<close>) and
  when \<^verbatim>\<open>mistake.question.correctAnswer\<close> is not a string.
\<close>

definition newReviewButton ::
  "engine \<Rightarrow> json option \<Rightarrow> js_string \<Rightarrow> json \<Rightarrow> js_error + option_button" where
  "newReviewButton js correct sel option =
     (case domString js (Some option) of
        None \<Rightarrow> Inl (TypeError js ''button.textContent = option'' (Some option))
      | Some t \<Rightarrow>
          (case asString (Some option) of
             None \<Rightarrow> Inl (TypeError js ''option.trim()'' (Some option))
           | Some opt \<Rightarrow>
               (case asString correct of
                  None \<Rightarrow> Inl (TypeError js ''mistake.question.correctAnswer.trim()'' correct)
                | Some c \<Rightarrow>
                    Inr \<lparr>textContent = t, disabled = True,
                         class_correct = (toLowerCase js (trim js opt) = toLowerCase js (trim js c)),
                         class_incorrect = (toLowerCase js (trim js opt) = toLowerCase js (trim js sel)),
                         listener = None\<rparr>)))"

definition displayMistake :: "engine \<Rightarrow> page \<Rightarrow> page completion" where
  "displayMistake js s =
     (let s1 = s\<lparr>quizFeedbackEl := [], quizOptionsEl := [],
                 nextQuestionBtn_hidden := False, scoreDisplayEl_hidden := True\<rparr>
      in case elemAt (incorrectAnswers s) (currentQuestionIndex s) of
           None \<Rightarrow> Throw (TypeError js ''mistake.question'' None) s1
         | Some mistake \<Rightarrow>
             (case nonNull (mistake_question mistake) of
                None \<Rightarrow>
                  Throw (TypeError js ''mistake.question.question'' (mistake_question mistake)) s1
              | Some qu \<Rightarrow>
                  (case domString js (property qu ''question'') of
                     None \<Rightarrow>
                       Throw (TypeError js ''quizQuestionEl.textContent = mistake.question.question''
                                (property qu ''question'')) s1
                   | Some t \<Rightarrow>
                       let s2 = s1\<lparr>quizQuestionEl := t\<rparr> in
                       (case asArray (property qu ''options'') of
                          None \<Rightarrow>
                            Throw (TypeError js ''mistake.question.options.forEach''
                                     (property qu ''options'')) s2
                        | Some opts \<Rightarrow>
                            let r = forEach (newReviewButton js (property qu ''correctAnswer'')
                                               (selected mistake)) opts;
                                s3 = s2\<lparr>quizOptionsEl := fst r\<rparr>
                            in (case snd r of None \<Rightarrow> Normal s3 | Some e \<Rightarrow> Throw e s3)))))"

definition startQuiz :: "engine \<Rightarrow> page \<Rightarrow> page completion" where
  "startQuiz js s =
     displayCurrentQuestion js
       (s\<lparr>currentQuestionIndex := 0, score := 0, incorrectAnswers := [],
          isReviewingMistakes := False,
          resultsSection_hidden := True, reviewMistakesBtn_hidden := True,
          quizSection_hidden := False, quizContentContainer_hidden := False,
          quizLoadingContainer_hidden := True\<rparr>)"

definition nextQuestionBtn_click :: "engine \<Rightarrow> page \<Rightarrow> page completion" where
  "nextQuestionBtn_click js s =
     (let s1 = s\<lparr>currentQuestionIndex := currentQuestionIndex s + 1\<rparr> in
      if isReviewingMistakes s1 then
        (if currentQuestionIndex s1 < length (incorrectAnswers s1) then displayMistake js s1
         else showResults js (s1\<lparr>isReviewingMistakes := False\<rparr>))
      else
        (case lengthNumber js (quizQuestions s1) of
           None \<Rightarrow>
             Throw (TypeError js ''currentQuestionIndex < quizQuestions.length''
                      (if quizQuestions s1 = JNull then Some JNull else lengthProp (quizQuestions s1))) s1
         | Some n \<Rightarrow>
             if less_than (real (currentQuestionIndex s1)) n then displayCurrentQuestion js s1
             else showResults js s1))"

definition reviewMistakesBtn_click :: "engine \<Rightarrow> page \<Rightarrow> page completion" where
  "reviewMistakesBtn_click js s =
     displayMistake js
       (s\<lparr>isReviewingMistakes := True, currentQuestionIndex := 0,
          resultsSection_hidden := True, quizSection_hidden := False,
          quizContentContainer_hidden := False\<rparr>)"

definition restartQuizBtn_click :: "engine \<Rightarrow> page \<Rightarrow> page completion" where
  "restartQuizBtn_click js s = startQuiz js s"

definition exitQuizBtn_click :: "page \<Rightarrow> page" where
  "exitQuizBtn_click s =
     s\<lparr>resultsSection_hidden := True, qaSection_hidden := False,
       quizQuestions := JArray [], incorrectAnswers := [], currentQuestionIndex := 0, score := 0,
       isReviewingMistakes := False\<rparr>"

text \<open>
  The click handler of \<^verbatim>\<open>startQuizBtn\<close> is asynchronous. \<open>startQuizBtn_click\<close> is what runs up to
  \<^verbatim>\<open>await ai.models.generateContent\<close>; \<open>startQuizBtn_resume\<close> is what runs when the reply is there:
  the rest of the \<^verbatim>\<open>try\<close> block (\<open>quizTry\<close>), the \<^verbatim>\<open>catch\<close> block and the \<^verbatim>\<open>finally\<close> block.
  \<open>quizErrorTimeout\<close> is the callback given to \<^verbatim>\<open>setTimeout\<close>.
\<close>

definition startQuizBtn_click :: "page \<Rightarrow> page" where
  "startQuizBtn_click s =
     (case activeFile s of
        None \<Rightarrow> s
      | Some f \<Rightarrow>
          s\<lparr>qaSection_hidden := True, answerSection_hidden := True,
            quizSection_hidden := False, quizContentContainer_hidden := True,
            quizLoadingContainer_hidden := False,
            quizLoadingStatus := str ''Generating quiz...'',
            askBtn_disabled := True, startQuizBtn_disabled := True, startGameBtn_disabled := True,
            gatewayCalls := gatewayCalls s + 1\<rparr>)"

definition InvalidQuizFormat :: js_error where
  "InvalidQuizFormat = ErrorObject (str ''Invalid quiz format received from AI.'')"

definition quizTry :: "engine \<Rightarrow> reply \<Rightarrow> page \<Rightarrow> page completion" where
  "quizTry js r s =
     (case r of
        Rejected e \<Rightarrow> Throw e s
      | NotJSON m \<Rightarrow> Throw (ErrorObject m) s
      | Parsed quizData \<Rightarrow>
          (case nonEmptyMember js ''quizData'' quizData ''questions'' of
             Inl e \<Rightarrow> Throw e s
           | Inr None \<Rightarrow> Throw InvalidQuizFormat s
           | Inr (Some questions) \<Rightarrow>
               startQuiz js (s\<lparr>quizQuestions := questions, quizLoadingContainer_hidden := True,
                               quizContentContainer_hidden := False\<rparr>)))"

definition startQuizBtn_resume :: "engine \<Rightarrow> reply \<Rightarrow> page \<Rightarrow> page" where
  "startQuizBtn_resume js r s =
     (let s1 = (case quizTry js r s of
                  Normal s' \<Rightarrow> s'
                | Throw e s' \<Rightarrow>
                    s'\<lparr>quizLoadingStatus :=
                         str ''Could not generate a quiz. The material might be too short or unsupported. Please try again with a different file.'',
                       quizTimeouts := quizTimeouts s' + 1\<rparr>)
      in s1\<lparr>askBtn_disabled := False, startQuizBtn_disabled := False,
            startGameBtn_disabled := False\<rparr>)"

definition quizErrorTimeout :: "page \<Rightarrow> page" where
  "quizErrorTimeout s =
     s\<lparr>quizSection_hidden := True, qaSection_hidden := False, quizTimeouts := quizTimeouts s - 1\<rparr>"

section \<open>Flashcards\<close>

definition showGameResults :: "engine \<Rightarrow> page \<Rightarrow> page completion" where
  "showGameResults js s =
     (let s1 = s\<lparr>gameContainer_hidden := True, gameResultsSection_hidden := False\<rparr> in
      if lengthText js (flashcards s) = None
      then Throw (TypeError js ''gameResultsHeadingEl.textContent''
                    (if flashcards s = JNull then Some JNull else lengthProp (flashcards s))) s1
      else Normal s1)"

definition displayCurrentCard :: "engine \<Rightarrow> page \<Rightarrow> page completion" where
  "displayCurrentCard js s =
     (case lengthNumber js (flashcards s) of
        None \<Rightarrow>
          Throw (TypeError js ''currentCardIndex >= flashcards.length''
                   (if flashcards s = JNull then Some JNull else lengthProp (flashcards s))) s
      | Some n \<Rightarrow>
          if at_least (real (currentCardIndex s)) n then showGameResults js s
          else
            let s1 = s\<lparr>flashcard_flipped := False, gameControls_hidden := True\<rparr>;
                c = element (flashcards s) (currentCardIndex s)
            in if lengthText js (flashcards s) = None
               then Throw (TypeError js ''cardProgressEl.textContent'' (lengthProp (flashcards s))) s1
               else
                 (case nonNull c of
                    None \<Rightarrow> Throw (TypeError js ''card.term'' c) s1
                  | Some cd \<Rightarrow>
                      (case domString js (property cd ''term'') of
                         None \<Rightarrow>
                           Throw (TypeError js ''flashcardTermEl.textContent = card.term''
                                    (property cd ''term'')) s1
                       | Some t \<Rightarrow>
                           let s2 = s1\<lparr>flashcardTermEl := t\<rparr> in
                           (case domString js (property cd ''definition'') of
                              None \<Rightarrow>
                                Throw (TypeError js ''flashcardDefinitionEl.textContent = card.definition''
                                         (property cd ''definition'')) s2
                            | Some d \<Rightarrow> Normal (s2\<lparr>flashcardDefinitionEl := d\<rparr>)))))"

definition startGame :: "engine \<Rightarrow> page \<Rightarrow> page completion" where
  "startGame js s =
     displayCurrentCard js
       (s\<lparr>currentCardIndex := 0, knownCardsCount := 0,
          gameContainer_hidden := False, gameResultsSection_hidden := True\<rparr>)"

definition advanceCard :: "engine \<Rightarrow> page \<Rightarrow> page completion" where
  "advanceCard js s = displayCurrentCard js (s\<lparr>currentCardIndex := currentCardIndex s + 1\<rparr>)"

definition flashcardContainer_click :: "page \<Rightarrow> page" where
  "flashcardContainer_click s =
     (let flipped = \<not> flashcard_flipped s
      in s\<lparr>flashcard_flipped := flipped, gameControls_hidden := \<not> flipped\<rparr>)"

definition knewItBtn_click :: "engine \<Rightarrow> page \<Rightarrow> page completion" where
  "knewItBtn_click js s = advanceCard js (s\<lparr>knownCardsCount := knownCardsCount s + 1\<rparr>)"

definition didntKnowBtn_click :: "engine \<Rightarrow> page \<Rightarrow> page completion" where
  "didntKnowBtn_click js s = advanceCard js s"

definition restartGameBtn_click :: "engine \<Rightarrow> page \<Rightarrow> page completion" where
  "restartGameBtn_click js s = startGame js s"

definition exitGameBtn_click :: "page \<Rightarrow> page" where
  "exitGameBtn_click s =
     s\<lparr>gameSection_hidden := True, qaSection_hidden := False, flashcards := JArray [],
       askBtn_disabled := False, startQuizBtn_disabled := False, startGameBtn_disabled := False\<rparr>"

text \<open>
  The click handler of \<^verbatim>\<open>startGameBtn\<close>, split at its \<^verbatim>\<open>await\<close> like the one of the quiz. Every
  click creates a generation: a new AbortController, a new interval and a new
  \<^verbatim>\<open>abortHandler\<close>, attached to \<^verbatim>\<open>exitGameLoadingBtn\<close> with \<^verbatim>\<open>once: true\<close>. A generation is
  named by its position in \<open>generations\<close>.
\<close>

definition loadingMessages :: "js_string list" where
  "loadingMessages =
     [str ''Analyzing your document...'', str ''Identifying key concepts...'',
      str ''Crafting flashcard definitions...'', str ''Building the flashcard deck...'',
      str ''Just a moment more...'']"

definition startGameBtn_click :: "page \<Rightarrow> page" where
  "startGameBtn_click s =
     (case activeFile s of
        None \<Rightarrow> s
      | Some f \<Rightarrow>
          s\<lparr>qaSection_hidden := True, answerSection_hidden := True,
            gameSection_hidden := False, gameContainer_hidden := True,
            gameResultsSection_hidden := True, gameLoadingContainer_hidden := False,
            askBtn_disabled := True, startQuizBtn_disabled := True, startGameBtn_disabled := True,
            exitGameLoadingBtn_text := str ''Cancel'',
            gameLoadingStatus := loadingMessages ! 0,
            generations :=
              generations s @ [\<lparr>aborted = False, intervalActive = True, messageIndex = 0\<rparr>],
            exitListeners := exitListeners s @ [length (generations s)],
            gatewayCalls := gatewayCalls s + 1\<rparr>)"

definition loadingInterval_tick :: "nat \<Rightarrow> page \<Rightarrow> page" where
  "loadingInterval_tick g s =
     (case elemAt (generations s) g of
        None \<Rightarrow> s
      | Some gen \<Rightarrow>
          if intervalActive gen then
            let i = (messageIndex gen + 1) mod length loadingMessages
            in s\<lparr>generations := updateAt g (\<lambda>gen. gen\<lparr>messageIndex := i\<rparr>) (generations s),
                 gameLoadingStatus := loadingMessages ! i\<rparr>
          else s)"

definition clearInterval :: "nat \<Rightarrow> page \<Rightarrow> page" where
  "clearInterval g s =
     s\<lparr>generations := updateAt g (\<lambda>gen. gen\<lparr>intervalActive := False\<rparr>) (generations s)\<rparr>"

definition signal_aborted :: "nat \<Rightarrow> page \<Rightarrow> bool" where
  "signal_aborted g s = (case elemAt (generations s) g of None \<Rightarrow> False | Some gen \<Rightarrow> aborted gen)"

definition abortHandler :: "nat \<Rightarrow> page \<Rightarrow> page" where
  "abortHandler g s =
     (let s1 = clearInterval g
                 (s\<lparr>generations := updateAt g (\<lambda>gen. gen\<lparr>aborted := True\<rparr>) (generations s)\<rparr>)
      in s1\<lparr>gameLoadingContainer_hidden := True, qaSection_hidden := False,
            gameSection_hidden := True,
            askBtn_disabled := False, startQuizBtn_disabled := False,
            startGameBtn_disabled := False\<rparr>)"

text \<open>A click on \<^verbatim>\<open>exitGameLoadingBtn\<close> runs the attached handlers in order; each is detached as it runs.\<close>

definition exitGameLoadingBtn_click :: "page \<Rightarrow> page" where
  "exitGameLoadingBtn_click s = fold abortHandler (exitListeners s) (s\<lparr>exitListeners := []\<rparr>)"

definition NoFlashcards :: js_error where
  "NoFlashcards =
     ErrorObject (str ''No flashcards were generated. The material might be too short or unsuitable.'')"

definition gameTry :: "engine \<Rightarrow> nat \<Rightarrow> reply \<Rightarrow> page \<Rightarrow> page completion" where
  "gameTry js g r s =
     (case r of
        Rejected e \<Rightarrow> Throw e s
      | _ \<Rightarrow>
          if signal_aborted g s then Normal s
          else
            let s1 = (clearInterval g s)\<lparr>exitListeners := remove1 g (exitListeners s)\<rparr>
            in (case r of
                  Parsed gameData \<Rightarrow>
                    (case nonEmptyMember js ''gameData'' gameData ''flashcards'' of
                       Inl e \<Rightarrow> Throw e s1
                     | Inr None \<Rightarrow> Throw NoFlashcards s1
                     | Inr (Some cards) \<Rightarrow>
                         startGame js (s1\<lparr>flashcards := cards, gameLoadingContainer_hidden := True,
                                         gameContainer_hidden := False\<rparr>))
                | NotJSON m \<Rightarrow> Throw (ErrorObject m) s1
                | Rejected e \<Rightarrow> Throw e s1))"

definition startGameBtn_resume :: "engine \<Rightarrow> nat \<Rightarrow> reply \<Rightarrow> page \<Rightarrow> page" where
  "startGameBtn_resume js g r s =
     (case gameTry js g r s of
        Normal s' \<Rightarrow> s'
      | Throw err s' \<Rightarrow>
          if signal_aborted g s' then s'
          else
            (clearInterval g s')
              \<lparr>gameLoadingStatus :=
                 (case err of
                    ErrorObject m \<Rightarrow> m
                  | NonError \<Rightarrow> str ''Could not generate flashcards. Please try again or cancel.''),
               exitGameLoadingBtn_text := str ''Exit''\<rparr>)"

section \<open>Events\<close>

text \<open>
  Modelled from the spec: \<^verbatim>\<open>index.html\<close> is not among the sources, so which controls lie in
  which section, and which sections are shown when the page loads, follow the element ids and
  the states of sections 4.4 and 4.5 of the specification. In the idle state only the question
  section is shown. The option buttons and \<^verbatim>\<open>nextQuestionBtn\<close> lie in
  \<^verbatim>\<open>quiz-content-container\<close>, which lies in \<^verbatim>\<open>quiz-section\<close>; \<^verbatim>\<open>reviewMistakesBtn\<close>,
  \<^verbatim>\<open>restartQuizBtn\<close> and \<^verbatim>\<open>exitQuizBtn\<close> lie in \<^verbatim>\<open>results-section\<close>; \<^verbatim>\<open>game-loading-container\<close>
  (with \<^verbatim>\<open>exitGameLoadingBtn\<close>), \<^verbatim>\<open>game-container\<close> (with the flashcard and \<^verbatim>\<open>game-controls\<close>) and
  \<^verbatim>\<open>game-results-section\<close> (with \<^verbatim>\<open>restartGameBtn\<close> and \<^verbatim>\<open>exitGameBtn\<close>) lie in \<^verbatim>\<open>game-section\<close>.
  A control can be clicked when neither it nor a section around it is hidden and it is not
  disabled.
\<close>

definition quizContent_shown :: "page \<Rightarrow> bool" where
  "quizContent_shown s = (\<not> quizSection_hidden s \<and> \<not> quizContentContainer_hidden s)"

definition results_shown :: "page \<Rightarrow> bool" where
  "results_shown s = (\<not> resultsSection_hidden s)"

definition gameLoading_shown :: "page \<Rightarrow> bool" where
  "gameLoading_shown s = (\<not> gameSection_hidden s \<and> \<not> gameLoadingContainer_hidden s)"

definition gameContainer_shown :: "page \<Rightarrow> bool" where
  "gameContainer_shown s = (\<not> gameSection_hidden s \<and> \<not> gameContainer_hidden s)"

definition gameResults_shown :: "page \<Rightarrow> bool" where
  "gameResults_shown s = (\<not> gameSection_hidden s \<and> \<not> gameResultsSection_hidden s)"

definition initial :: page where
  "initial =
     \<lparr>activeFile = None, history = [], quizQuestions = JArray [], incorrectAnswers = [],
      currentQuestionIndex = 0, score = 0, isReviewingMistakes = False,
      flashcards = JArray [], currentCardIndex = 0, knownCardsCount = 0,
      objectStore = [], gatewayCalls = 0, quizTimeouts = 0, generations = [], exitListeners = [],
      qaSection_hidden = False, answerSection_hidden = True, quizSection_hidden = True,
      resultsSection_hidden = True, gameSection_hidden = True,
      quizLoadingContainer_hidden = True, quizContentContainer_hidden = True,
      scoreDisplayEl_hidden = True, nextQuestionBtn_hidden = True,
      reviewMistakesBtn_hidden = True, gameLoadingContainer_hidden = True,
      gameContainer_hidden = True, gameControls_hidden = True,
      gameResultsSection_hidden = True,
      askBtn_disabled = True, startQuizBtn_disabled = True, startGameBtn_disabled = True,
      quizOptionsEl = [], quizQuestionEl = [], quizFeedbackEl = [], quizLoadingStatus = [],
      gameLoadingStatus = [], exitGameLoadingBtn_text = str ''Cancel'', flashcard_flipped = False,
      flashcardTermEl = [], flashcardDefinitionEl = [], statusEl = [], questionInput = [],
      sidebar_open = False\<rparr>"

text \<open>
  The events of the page. A reply of the service may arrive at any time and may be anything.
  \<open>OtherHandler p\<close> stands for the handlers that are not modelled one by one (file upload,
  asking a question, loading the history when the page opens, the sidebar, typing): they
  write only the variables and properties that \<open>otherHandler\<close> copies from \<open>p\<close>, so any run of
  them is some \<open>OtherHandler p\<close>.
\<close>

datatype event =
    StartQuizBtnClick
  | QuizReply reply
  | QuizErrorTimeout
  | OptionBtnClick nat
  | NextQuestionBtnClick
  | ReviewMistakesBtnClick
  | RestartQuizBtnClick
  | ExitQuizBtnClick
  | StartGameBtnClick
  | GameReply nat reply
  | LoadingIntervalTick nat
  | ExitGameLoadingBtnClick
  | FlashcardContainerClick
  | KnewItBtnClick
  | DidntKnowBtnClick
  | RestartGameBtnClick
  | ExitGameBtnClick
  | HistoryItemClick js_string
  | ClearHistoryBtnClick bool db_outcome
  | OtherHandler page

definition otherHandler :: "page \<Rightarrow> page \<Rightarrow> page" where
  "otherHandler p s =
     s\<lparr>activeFile := activeFile p, history := history p, objectStore := objectStore p,
       statusEl := statusEl p, questionInput := questionInput p, sidebar_open := sidebar_open p,
       answerSection_hidden := answerSection_hidden p,
       askBtn_disabled := askBtn_disabled p, startQuizBtn_disabled := startQuizBtn_disabled p,
       startGameBtn_disabled := startGameBtn_disabled p\<rparr>"

text \<open>A click on the button at position \<open>k\<close> of \<^verbatim>\<open>quizOptionsEl\<close>; a disabled button dispatches no click.\<close>

definition optionBtn_click :: "engine \<Rightarrow> nat \<Rightarrow> page \<Rightarrow> page completion" where
  "optionBtn_click js k s =
     (case elemAt (quizOptionsEl s) k of
        None \<Rightarrow> Normal s
      | Some b \<Rightarrow>
          if disabled b then Normal s
          else (case listener b of
                  None \<Rightarrow> Normal s
                | Some (option, correct) \<Rightarrow> handleOptionClick js option correct k s))"

fun fire :: "engine \<Rightarrow> event \<Rightarrow> page \<Rightarrow> page completion" where
  "fire js StartQuizBtnClick s =
     (if startQuizBtn_disabled s then Normal s else Normal (startQuizBtn_click s))"
| "fire js (QuizReply r) s = Normal (startQuizBtn_resume js r s)"
| "fire js QuizErrorTimeout s =
     (if quizTimeouts s > 0 then Normal (quizErrorTimeout s) else Normal s)"
| "fire js (OptionBtnClick k) s =
     (if quizContent_shown s then optionBtn_click js k s else Normal s)"
| "fire js NextQuestionBtnClick s =
     (if quizContent_shown s \<and> \<not> nextQuestionBtn_hidden s then nextQuestionBtn_click js s
      else Normal s)"
| "fire js ReviewMistakesBtnClick s =
     (if results_shown s \<and> \<not> reviewMistakesBtn_hidden s then reviewMistakesBtn_click js s
      else Normal s)"
| "fire js RestartQuizBtnClick s =
     (if results_shown s then restartQuizBtn_click js s else Normal s)"
| "fire js ExitQuizBtnClick s =
     (if results_shown s then Normal (exitQuizBtn_click s) else Normal s)"
| "fire js StartGameBtnClick s =
     (if startGameBtn_disabled s then Normal s else Normal (startGameBtn_click s))"
| "fire js (GameReply g r) s =
     (if g < length (generations s) then Normal (startGameBtn_resume js g r s) else Normal s)"
| "fire js (LoadingIntervalTick g) s = Normal (loadingInterval_tick g s)"
| "fire js ExitGameLoadingBtnClick s =
     (if gameLoading_shown s then Normal (exitGameLoadingBtn_click s) else Normal s)"
| "fire js FlashcardContainerClick s =
     (if gameContainer_shown s then Normal (flashcardContainer_click s) else Normal s)"
| "fire js KnewItBtnClick s =
     (if gameContainer_shown s \<and> \<not> gameControls_hidden s then knewItBtn_click js s
      else Normal s)"
| "fire js DidntKnowBtnClick s =
     (if gameContainer_shown s \<and> \<not> gameControls_hidden s then didntKnowBtn_click js s
      else Normal s)"
| "fire js RestartGameBtnClick s =
     (if gameResults_shown s then restartGameBtn_click js s else Normal s)"
| "fire js ExitGameBtnClick s =
     (if gameResults_shown s then Normal (exitGameBtn_click s) else Normal s)"
| "fire js (HistoryItemClick i) s = Normal (loadHistoryItem i s)"
| "fire js (ClearHistoryBtnClick confirmed outcome) s = Normal (clearHistory confirmed outcome s)"
| "fire js (OtherHandler p) s = Normal (otherHandler p s)"

definition play :: "engine \<Rightarrow> event list \<Rightarrow> page \<Rightarrow> page" where
  "play js es s = fold (\<lambda>e s. state_of (fire js e s)) es s"

inductive reachable :: "engine \<Rightarrow> page \<Rightarrow> bool" for js where
  reachable_initial: "reachable js initial"
| reachable_fire: "reachable js s \<Longrightarrow> reachable js (state_of (fire js e s))"

section \<open>Notions used to state the properties\<close>

text \<open>The events of a user who answers question after question: a click on option \<open>k\<close>, then on next.\<close>

definition answers :: "nat list \<Rightarrow> event list" where
  "answers ks = concat (map (\<lambda>k. [OptionBtnClick k, NextQuestionBtnClick]) ks)"

text \<open>
  A reply whose questions are the array \<open>items\<close>: a value with that property \<^verbatim>\<open>questions\<close>.
\<close>

definition quizReply :: "json list \<Rightarrow> json" where
  "quizReply items = JObject [(str ''questions'', JArray items)]"

definition gameReply :: "json list \<Rightarrow> json" where
  "gameReply items = JObject [(str ''flashcards'', JArray items)]"

text \<open>
  Element \<open>j\<close> of the array \<open>items\<close> is the question \<open>q\<close>, is on display and has not been
  answered: the state \<open>displayCurrentQuestion\<close> leaves behind.
\<close>

definition presenting :: "json list \<Rightarrow> nat \<Rightarrow> QuizQuestion \<Rightarrow> page \<Rightarrow> bool" where
  "presenting items j q s =
     (quizContent_shown s \<and> nextQuestionBtn_hidden s \<and> quizQuestions s = JArray items \<and>
      currentQuestionIndex s = j \<and> \<not> isReviewingMistakes s \<and> j < length items \<and>
      asQuizQuestion (items ! j) = Some q \<and>
      quizOptionsEl s =
        map (\<lambda>opt. \<lparr>textContent = opt, disabled = False, class_correct = False,
                    class_incorrect = False,
                    listener = Some (JString opt, Some (JString (correctAnswer q)))\<rparr>)
            (options q))"

text \<open>
  The condition under which \<open>showResults\<close> shows \<^verbatim>\<open>reviewMistakesBtn\<close>: it has evaluated its test
  and found it true.
\<close>

definition reviewCondition :: "engine \<Rightarrow> page \<Rightarrow> bool" where
  "reviewCondition js s =
     (quizQuestions s \<noteq> JNull \<and> lengthText js (quizQuestions s) \<noteq> None \<and>
      quotientBelow js (score s) (quizQuestions s) = Some True \<and>
      length (incorrectAnswers s) > 0)"

text \<open>
  What holds of the quiz in every state the page can reach: while the results are shown the
  questions are not; \<^verbatim>\<open>reviewMistakesBtn\<close> is shown with the results only when the test of
  \<open>showResults\<close> holds; during a review that test holds and every option button is disabled;
  and while a question is on display outside a review, \<^verbatim>\<open>reviewMistakesBtn\<close> is hidden.
\<close>

definition quiz_inv :: "engine \<Rightarrow> page \<Rightarrow> bool" where
  "quiz_inv js s =
     ((results_shown s \<longrightarrow> \<not> quizContent_shown s) \<and>
      (results_shown s \<and> \<not> reviewMistakesBtn_hidden s \<longrightarrow> reviewCondition js s) \<and>
      (isReviewingMistakes s \<longrightarrow>
         reviewCondition js s \<and> (\<forall>b \<in> set (quizOptionsEl s). disabled b)) \<and>
      (quizContent_shown s \<and> \<not> isReviewingMistakes s \<longrightarrow> reviewMistakesBtn_hidden s))"

text \<open>The variables and properties of the quiz.\<close>

definition quiz_part ::
  "page \<Rightarrow> json \<times> Mistake list \<times> nat \<times> nat \<times> bool \<times> option_button list \<times>
          bool \<times> bool \<times> bool \<times> bool" where
  "quiz_part s =
     (quizQuestions s, incorrectAnswers s, currentQuestionIndex s, score s,
      isReviewingMistakes s, quizOptionsEl s, reviewMistakesBtn_hidden s,
      quizSection_hidden s, quizContentContainer_hidden s, resultsSection_hidden s)"

section \<open>Example data\<close>

text \<open>
  An engine to evaluate the examples with. It is not a model of the functions of a real
  engine, and no theorem about the page depends on it: the theorems hold for every engine.
  Its \<open>trim\<close> strips the code points of the ECMAScript classes WhiteSpace and LineTerminator
  from both ends; its \<open>toLowerCase\<close> maps \<open>A\<close>..\<open>Z\<close> to \<open>a\<close>..\<open>z\<close> and leaves every other code unit
  alone, which is what every engine does to a string of ASCII characters. The examples hold
  arrays and strings of ASCII characters only, so every engine gives what this one gives on
  them; the other functions of the engine do not bear on them.
\<close>

definition isWhiteSpace :: "nat \<Rightarrow> bool" where
  "isWhiteSpace c =
     (if c < 128 then (9 \<le> c \<and> c \<le> 13) \<or> c = 32
      else c = 160 \<or> c = 5760 \<or> (8192 \<le> c \<and> c \<le> 8202) \<or> c = 8232 \<or> c = 8233 \<or>
           c = 8239 \<or> c = 8287 \<or> c = 12288 \<or> c = 65279)"

definition example_engine :: engine where
  "example_engine =
     \<lparr>trim = (\<lambda>s. rev (dropWhile isWhiteSpace (rev (dropWhile isWhiteSpace s)))),
      toLowerCase = map (\<lambda>c. if 65 \<le> c \<and> c \<le> 90 then c + 32 else c),
      NumberToString = (\<lambda>x. []),
      StringToNumber = (\<lambda>s. NaN),
      quotientBelow06 = (\<lambda>a x. False),
      typeErrorMessage = (\<lambda>e v. str ''TypeError'')\<rparr>"

definition example_file :: HistoryItem where
  "example_file =
     \<lparr>item_id = str ''1'', name = str ''notes.txt'',
      content = str ''data:text/plain;base64,aGk='',
      mimeType = str ''text/plain'', timestamp = 1000\<rparr>"

definition q1 :: QuizQuestion where
  "q1 = \<lparr>question = str ''Capital of France?'', options = [str ''Paris'', str ''Rome''],
         correctAnswer = str '' paris ''\<rparr>"

definition q2 :: QuizQuestion where
  "q2 = \<lparr>question = str ''2 + 2?'', options = [str ''3'', str ''4''], correctAnswer = str ''4''\<rparr>"

definition card1 :: Flashcard where
  "card1 = \<lparr>card_term = str ''HOL'', card_definition = str ''higher-order logic''\<rparr>"

text \<open>A page on which a file has been uploaded.\<close>

definition uploaded :: page where
  "uploaded =
     initial\<lparr>activeFile := Some example_file, history := [example_file],
             objectStore := [example_file],
             askBtn_disabled := False, startQuizBtn_disabled := False,
             startGameBtn_disabled := False\<rparr>"

text \<open>The quiz \<open>[q1, q2]\<close> answered with one right and one wrong answer: the results are shown.\<close>

definition example_quiz :: "json list" where
  "example_quiz = [questionJSON q1, questionJSON q2]"

definition example_results :: page where
  "example_results =
     play example_engine
       ([StartQuizBtnClick, QuizReply (Parsed (quizReply example_quiz))] @ answers [0, 0])
       uploaded"

text \<open>The same quiz during the review of its only mistake.\<close>

definition example_review :: page where
  "example_review = play example_engine [ReviewMistakesBtnClick] example_results"

text \<open>A deck of one card on display, turned over.\<close>

definition example_game :: page where
  "example_game =
     play example_engine
       [StartGameBtnClick, GameReply 0 (Parsed (gameReply [flashcardJSON card1])),
        FlashcardContainerClick]
       uploaded"

text \<open>Flashcards are being generated.\<close>

definition example_loading :: page where
  "example_loading = play example_engine [StartGameBtnClick] uploaded"

text \<open>
  The deck of one card after its card has been answered and the game left, and after the
  next click on \<^verbatim>\<open>startGameBtn\<close>.
\<close>

definition example_exited :: page where
  "example_exited = play example_engine [KnewItBtnClick, ExitGameBtnClick] example_game"

definition example_reloading :: page where
  "example_reloading = play example_engine [StartGameBtnClick] example_exited"

text \<open>An element that is not a question of the interface: it has no \<^verbatim>\<open>options\<close>.\<close>

definition no_options :: json where
  "no_options =
     JObject [(str ''question'', JString (str ''Q'')), (str ''correctAnswer'', JString (str ''A''))]"

section \<open>Local history: properties\<close>

lemma mset_insertBy: "mset (insertBy cmp x xs) = add_mset x (mset xs)"
  by (induction xs) auto

lemma mset_sortBy: "mset (sortBy cmp xs) = mset xs"
  by (induction xs) (auto simp: sortBy_def mset_insertBy)

lemma set_insertBy: "set (insertBy cmp x xs) = insert x (set xs)"
  by (induction xs) auto

lemma sorted_insertBy_newestFirst:
  "sorted_wrt (\<lambda>a b. timestamp b \<le> timestamp a) xs \<Longrightarrow>
   sorted_wrt (\<lambda>a b. timestamp b \<le> timestamp a) (insertBy newestFirst x xs)"
  by (induction xs) (auto simp: set_insertBy newestFirst_def)

lemma sorted_sortBy_newestFirst:
  "sorted_wrt (\<lambda>a b. timestamp b \<le> timestamp a) (sortBy newestFirst xs)"
proof (induction xs)
  case Nil
  show ?case by (simp add: sortBy_def)
next
  case (Cons x xs)
  have "sortBy newestFirst (x # xs) = insertBy newestFirst x (sortBy newestFirst xs)"
    by (simp add: sortBy_def)
  with Cons show ?case by (simp add: sorted_insertBy_newestFirst)
qed

text \<open>
  Claim C4. For every content of the object store, \<open>loadHistoryFromDB\<close> succeeds when the
  database does, and returns exactly the stored records (each as often as it is stored),
  newest first: no record is followed by one with a later timestamp. On the empty store it
  returns the empty list.
\<close>

theorem loadHistoryFromDB_newest_first:
  "(\<exists>hs. loadHistoryFromDB DbOk store = Inr hs \<and> mset hs = mset store \<and>
         sorted_wrt (\<lambda>a b. timestamp b \<le> timestamp a) hs) \<and>
   loadHistoryFromDB DbOk [] = Inr []"
proof
  show "\<exists>hs. loadHistoryFromDB DbOk store = Inr hs \<and> mset hs = mset store \<and>
          sorted_wrt (\<lambda>a b. timestamp b \<le> timestamp a) hs"
    by (simp add: loadHistoryFromDB_def mset_sortBy sorted_sortBy_newestFirst)
  show "loadHistoryFromDB DbOk [] = Inr []"
    by (simp add: loadHistoryFromDB_def sortBy_def)
qed

text \<open>
  Claim C5. After \<open>clearHistory\<close> with a successful clear, the store is empty, loading the
  history from it gives the empty list, the history in memory is empty and no material is
  active. When the database cannot be opened or the transaction fails, the history in memory,
  the active material and the store are what they were. When the user does not confirm,
  nothing changes.
\<close>

theorem clearHistory_store_and_selection:
  "objectStore (clearHistory True DbOk s) = [] \<and>
   loadHistoryFromDB DbOk (objectStore (clearHistory True DbOk s)) = Inr [] \<and>
   history (clearHistory True DbOk s) = [] \<and>
   activeFile (clearHistory True DbOk s) = None \<and>
   history (clearHistory True OpenFails s) = history s \<and>
   activeFile (clearHistory True OpenFails s) = activeFile s \<and>
   objectStore (clearHistory True OpenFails s) = objectStore s \<and>
   history (clearHistory True TransactionFails s) = history s \<and>
   activeFile (clearHistory True TransactionFails s) = activeFile s \<and>
   objectStore (clearHistory True TransactionFails s) = objectStore s \<and>
   clearHistory False outcome s = s"
  by (simp add: clearHistory_def clearHistoryDB_def loadHistoryFromDB_def sortBy_def)

section \<open>Quiz: scoring\<close>

lemma play_Nil [simp]: "play js [] s = s"
  by (simp add: play_def)

lemma play_Cons [simp]: "play js (e # es) s = play js es (state_of (fire js e s))"
  by (simp add: play_def)

lemma play_append: "play js (es @ fs) s = play js fs (play js es s)"
  by (simp add: play_def)

lemma array_facts [simp]:
  "truthy (JArray xs)"
  "JArray xs \<noteq> JNull"
  "lengthIsZero (JArray xs) = (xs = [])"
  "lengthNumber js (JArray xs) = Some (Finite (real (length xs)))"
  "lengthText js (JArray xs) \<noteq> None"
  "element (JArray xs) i = elemAt xs i"
  "quotientBelow js a (JArray xs) = Some (js_less (js_div a (length xs)) (6 / 10))"
  by (simp_all add: lengthIsZero_def lengthNumber_def lengthText_def lengthProp_def element_def
        quotientBelow_def to_number_def to_string_def ToNumber_def)

lemma those_asString:
  "those (map (\<lambda>opt. asString (Some opt)) os) = Some opts \<Longrightarrow> os = map JString opts"
proof (induction os arbitrary: opts)
  case Nil
  then show ?case by simp
next
  case (Cons a os)
  then show ?case by (cases a) (auto split: option.splits)
qed

lemma those_Some: "those (map Some xs) = Some xs"
  by (induction xs) simp_all

lemma asArray_Some: "asArray v = Some xs \<longleftrightarrow> v = Some (JArray xs)"
  by (cases v rule: asArray.cases) simp_all

lemma asString_Some: "asString v = Some x \<longleftrightarrow> v = Some (JString x)"
  by (cases v rule: asString.cases) simp_all

lemma nonNull_Some: "nonNull v = Some x \<longleftrightarrow> v = Some x \<and> x \<noteq> JNull"
  by (cases v rule: nonNull.cases) auto

lemma nonNull_value: "x \<noteq> JNull \<Longrightarrow> nonNull (Some x) = Some x"
  by (simp add: nonNull_Some)

lemma asQuizQuestion_property:
  assumes "asQuizQuestion v = Some q"
  shows "v \<noteq> JNull"
    and "property v ''question'' = Some (JString (question q))"
    and "property v ''options'' = Some (JArray (map JString (options q)))"
    and "property v ''correctAnswer'' = Some (JString (correctAnswer q))"
proof -
  from assms obtain qn os c opts where
    "asString (property v ''question'') = Some qn" "asArray (property v ''options'') = Some os"
    "asString (property v ''correctAnswer'') = Some c"
    "those (map (\<lambda>opt. asString (Some opt)) os) = Some opts"
    "q = \<lparr>question = qn, options = opts, correctAnswer = c\<rparr>"
    by (auto simp add: asQuizQuestion_def split: option.splits)
  then show "property v ''question'' = Some (JString (question q))"
    and "property v ''options'' = Some (JArray (map JString (options q)))"
    and "property v ''correctAnswer'' = Some (JString (correctAnswer q))"
    by (auto simp add: asArray_Some asString_Some dest: those_asString)
  then show "v \<noteq> JNull" by (auto simp add: property_def)
qed

lemma asQuizQuestion_questionJSON [simp]: "asQuizQuestion (questionJSON q) = Some q"
proof -
  have k: "str ''options'' \<noteq> str ''question''" "str ''correctAnswer'' \<noteq> str ''question''"
    "str ''correctAnswer'' \<noteq> str ''options''"
    by (simp_all add: str_def)
  then show ?thesis
    by (simp add: asQuizQuestion_def questionJSON_def property_def comp_def those_Some)
qed

lemma forEach_newOptionButton:
  "forEach (newOptionButton js c) (map JString os) =
     (map (\<lambda>opt. \<lparr>textContent = opt, disabled = False, class_correct = False,
                  class_incorrect = False, listener = Some (JString opt, c)\<rparr>) os, None)"
  by (induction os) (simp_all add: newOptionButton_def domString_def)

text \<open>What \<open>displayCurrentQuestion\<close> never changes, however it ends.\<close>

lemma displayCurrentQuestion_keeps:
  "score (state_of (displayCurrentQuestion js s)) = score s"
  "incorrectAnswers (state_of (displayCurrentQuestion js s)) = incorrectAnswers s"
  "quizQuestions (state_of (displayCurrentQuestion js s)) = quizQuestions s"
  "currentQuestionIndex (state_of (displayCurrentQuestion js s)) = currentQuestionIndex s"
  "isReviewingMistakes (state_of (displayCurrentQuestion js s)) = isReviewingMistakes s"
  "quizSection_hidden (state_of (displayCurrentQuestion js s)) = quizSection_hidden s"
  "quizContentContainer_hidden (state_of (displayCurrentQuestion js s)) = quizContentContainer_hidden s"
  "resultsSection_hidden (state_of (displayCurrentQuestion js s)) = resultsSection_hidden s"
  "reviewMistakesBtn_hidden (state_of (displayCurrentQuestion js s)) = reviewMistakesBtn_hidden s"
  "gatewayCalls (state_of (displayCurrentQuestion js s)) = gatewayCalls s"
  "generations (state_of (displayCurrentQuestion js s)) = generations s"
  by (simp_all add: displayCurrentQuestion_def Let_def split: option.splits)

lemma displayCurrentQuestion_presenting:
  assumes "quizContent_shown s" "\<not> isReviewingMistakes s" "quizQuestions s = JArray items"
    "currentQuestionIndex s < length items"
    "asQuizQuestion (items ! currentQuestionIndex s) = Some q"
  shows "presenting items (currentQuestionIndex s) q (state_of (displayCurrentQuestion js s))"
    and "\<not> throws (displayCurrentQuestion js s)"
proof -
  note p = asQuizQuestion_property[OF assms(5)]
  from assms(4) have ne: "items \<noteq> []" by auto
  have "displayCurrentQuestion js s =
          Normal (s\<lparr>quizFeedbackEl := [], quizOptionsEl := [],
                   nextQuestionBtn_hidden := True, scoreDisplayEl_hidden := False,
                   quizQuestionEl := question q,
                   quizOptionsEl :=
                     map (\<lambda>opt. \<lparr>textContent = opt, disabled = False, class_correct = False,
                                 class_incorrect = False,
                                 listener = Some (JString opt, Some (JString (correctAnswer q)))\<rparr>)
                         (options q)\<rparr>)"
    using assms(3,4) ne p
    by (simp add: displayCurrentQuestion_def Let_def elemAt_def domString_def nonNull_value
          forEach_newOptionButton)
  then show "presenting items (currentQuestionIndex s) q (state_of (displayCurrentQuestion js s))"
    and "\<not> throws (displayCurrentQuestion js s)"
    using assms by (simp_all add: presenting_def quizContent_shown_def)
qed

text \<open>\<open>handleOptionClick\<close> on two strings.\<close>

lemma handleOptionClick_score:
  "score (state_of (handleOptionClick js (JString a) (Some (JString c)) b s)) =
     (if toLowerCase js (trim js a) = toLowerCase js (trim js c) then score s + 1 else score s)"
  by (simp add: handleOptionClick_def Let_def)

lemma handleOptionClick_incorrectAnswers:
  "incorrectAnswers (state_of (handleOptionClick js (JString a) (Some (JString c)) b s)) =
     (if toLowerCase js (trim js a) = toLowerCase js (trim js c) \<or> quizQuestions s = JNull
      then incorrectAnswers s
      else incorrectAnswers s @
             [\<lparr>mistake_question = element (quizQuestions s) (currentQuestionIndex s),
               selected = a\<rparr>])"
  by (simp add: handleOptionClick_def Let_def)

text \<open>What \<open>handleOptionClick\<close> never changes, whatever it is called with and however it ends.\<close>

lemma handleOptionClick_keeps:
  "quizQuestions (state_of (handleOptionClick js a c b s)) = quizQuestions s"
  "currentQuestionIndex (state_of (handleOptionClick js a c b s)) = currentQuestionIndex s"
  "isReviewingMistakes (state_of (handleOptionClick js a c b s)) = isReviewingMistakes s"
  "quizContent_shown (state_of (handleOptionClick js a c b s)) = quizContent_shown s"
  "results_shown (state_of (handleOptionClick js a c b s)) = results_shown s"
  "reviewMistakesBtn_hidden (state_of (handleOptionClick js a c b s)) = reviewMistakesBtn_hidden s"
  "gatewayCalls (state_of (handleOptionClick js a c b s)) = gatewayCalls s"
  "generations (state_of (handleOptionClick js a c b s)) = generations s"
  by (simp_all add: handleOptionClick_def Let_def quizContent_shown_def results_shown_def
        split: option.splits)

lemma handleOptionClick_completes:
  assumes "\<not> throws (handleOptionClick js a c b s)"
  shows "\<forall>x \<in> set (quizOptionsEl (state_of (handleOptionClick js a c b s))). disabled x"
    and "\<not> nextQuestionBtn_hidden (state_of (handleOptionClick js a c b s))"
  using assms
  by (auto simp add: handleOptionClick_def Let_def split: option.splits if_splits)

lemma handleOptionClick_strings:
  assumes "quizQuestions s \<noteq> JNull"
  shows "\<not> throws (handleOptionClick js (JString a) (Some (JString c)) b s)"
  using assms by (simp add: handleOptionClick_def Let_def)

lemma presenting_click:
  assumes "presenting items j q s" "k < length (options q)"
  shows "optionBtn_click js k s =
           handleOptionClick js (JString (options q ! k)) (Some (JString (correctAnswer q))) k s"
  using assms by (simp add: presenting_def optionBtn_click_def elemAt_def)

text \<open>What \<open>showResults\<close> never changes, however it ends.\<close>

lemma showResults_keeps:
  "score (state_of (showResults js s)) = score s"
  "incorrectAnswers (state_of (showResults js s)) = incorrectAnswers s"
  "quizQuestions (state_of (showResults js s)) = quizQuestions s"
  "currentQuestionIndex (state_of (showResults js s)) = currentQuestionIndex s"
  "isReviewingMistakes (state_of (showResults js s)) = isReviewingMistakes s"
  "results_shown (state_of (showResults js s))"
  "\<not> quizContent_shown (state_of (showResults js s))"
  "gatewayCalls (state_of (showResults js s)) = gatewayCalls s"
  "generations (state_of (showResults js s)) = generations s"
  by (simp_all add: showResults_def Let_def results_shown_def quizContent_shown_def
        split: option.splits)

lemma nextQuestionBtn_click_array:
  assumes "quizQuestions s = JArray items" "\<not> isReviewingMistakes s"
  shows "nextQuestionBtn_click js s =
           (if currentQuestionIndex s + 1 < length items
            then displayCurrentQuestion js (s\<lparr>currentQuestionIndex := currentQuestionIndex s + 1\<rparr>)
            else showResults js (s\<lparr>currentQuestionIndex := currentQuestionIndex s + 1\<rparr>))"
  using assms by (simp add: nextQuestionBtn_click_def Let_def)

lemma answer_step:
  fixes js :: engine
  assumes P: "presenting items j q s" and k: "k < length (options q)"
  defines "s' \<equiv> play js [OptionBtnClick k, NextQuestionBtnClick] s"
  shows "score s' =
           (if toLowerCase js (trim js (options q ! k)) = toLowerCase js (trim js (correctAnswer q))
            then score s + 1 else score s)"
    and "incorrectAnswers s' =
           (if toLowerCase js (trim js (options q ! k)) = toLowerCase js (trim js (correctAnswer q))
            then incorrectAnswers s
            else incorrectAnswers s @
                   [\<lparr>mistake_question = Some (items ! j), selected = options q ! k\<rparr>])"
    and "j + 1 < length items \<Longrightarrow> asQuizQuestion (items ! (j + 1)) = Some q' \<Longrightarrow>
           presenting items (j + 1) q' s'"
proof -
  let ?c = "handleOptionClick js (JString (options q ! k)) (Some (JString (correctAnswer q))) k s"
  let ?h = "state_of ?c"
  let ?h1 = "?h\<lparr>currentQuestionIndex := j + 1\<rparr>"
  from P have shown: "quizContent_shown s" and qq: "quizQuestions s = JArray items"
    and idx: "currentQuestionIndex s = j" and rev: "\<not> isReviewingMistakes s"
    and j: "j < length items"
    by (simp_all add: presenting_def)
  have click: "state_of (fire js (OptionBtnClick k) s) = ?h"
    using shown presenting_click[OF P k] by simp
  have nt: "\<not> throws ?c" using qq by (simp add: handleOptionClick_strings)
  have "fire js NextQuestionBtnClick ?h = nextQuestionBtn_click js ?h"
    using shown handleOptionClick_completes(2)[OF nt] by (simp add: handleOptionClick_keeps)
  also have "\<dots> = (if j + 1 < length items then displayCurrentQuestion js ?h1
                    else showResults js ?h1)"
    using rev qq idx
    by (simp add: nextQuestionBtn_click_array[of _ items] handleOptionClick_keeps)
  finally have s': "s' = state_of (if j + 1 < length items then displayCurrentQuestion js ?h1
                                   else showResults js ?h1)"
    unfolding s'_def using click by simp
  have "quizContent_shown ?h" using shown by (simp add: handleOptionClick_keeps)
  then have h1: "quizContent_shown ?h1" "\<not> isReviewingMistakes ?h1"
    "quizQuestions ?h1 = JArray items" "currentQuestionIndex ?h1 = j + 1"
    using rev qq by (simp_all add: handleOptionClick_keeps quizContent_shown_def)
  have sc: "score s' = score ?h"
    using s' by (simp add: showResults_keeps displayCurrentQuestion_keeps)
  have ia: "incorrectAnswers s' = incorrectAnswers ?h"
    using s' by (simp add: showResults_keeps displayCurrentQuestion_keeps)
  show "score s' =
          (if toLowerCase js (trim js (options q ! k)) = toLowerCase js (trim js (correctAnswer q))
           then score s + 1 else score s)"
    using sc by (simp add: handleOptionClick_score)
  show "incorrectAnswers s' =
          (if toLowerCase js (trim js (options q ! k)) = toLowerCase js (trim js (correctAnswer q))
           then incorrectAnswers s
           else incorrectAnswers s @
                  [\<lparr>mistake_question = Some (items ! j), selected = options q ! k\<rparr>])"
    using ia qq idx j by (simp add: handleOptionClick_incorrectAnswers elemAt_def)
  show "presenting items (j + 1) q' s'"
    if "j + 1 < length items" "asQuizQuestion (items ! (j + 1)) = Some q'"
    using that s' h1 displayCurrentQuestion_presenting(1)[of ?h1 items q' js] by simp
qed

lemma session_from:
  assumes "presenting items j q s" "j + length ks \<le> length items"
    "map asQuizQuestion (take (length ks) (drop j items)) = map Some qs"
    "\<forall>(q, k) \<in> set (zip qs ks). k < length (options q)"
  shows "score (play js (answers ks) s) =
           score s +
           length (filter (\<lambda>(q, k). toLowerCase js (trim js (options q ! k)) =
                                     toLowerCase js (trim js (correctAnswer q)))
                     (zip qs ks)) \<and>
         incorrectAnswers (play js (answers ks) s) =
           incorrectAnswers s @
             map (\<lambda>(item, q, k). \<lparr>mistake_question = Some item, selected = options q ! k\<rparr>)
               (filter (\<lambda>(item, q, k). toLowerCase js (trim js (options q ! k)) \<noteq>
                                         toLowerCase js (trim js (correctAnswer q)))
                  (zip (drop j items) (zip qs ks)))"
  using assms
proof (induction ks arbitrary: s j q qs)
  case Nil
  then show ?case by (simp add: answers_def)
next
  case (Cons k ks)
  let ?s' = "play js [OptionBtnClick k, NextQuestionBtnClick] s"
  from Cons.prems(2) have j: "j < length items" by simp
  then have dr: "drop j items = items ! j # drop (j + 1) items" by (simp add: Cons_nth_drop_Suc)
  from Cons.prems(1) have q: "asQuizQuestion (items ! j) = Some q" by (simp add: presenting_def)
  from Cons.prems(3) dr q obtain qs' where qs: "qs = q # qs'"
    and qs': "map asQuizQuestion (take (length ks) (drop (j + 1) items)) = map Some qs'"
    by (cases qs) auto
  from Cons.prems(4) qs have k: "k < length (options q)"
    and rest: "\<forall>(q, k) \<in> set (zip qs' ks). k < length (options q)"
    by simp_all
  note st = answer_step[OF Cons.prems(1) k, where js = js]
  have pl: "play js (answers (k # ks)) s = play js (answers ks) ?s'"
    by (simp add: answers_def)
  show ?case
  proof (cases ks)
    case Nil
    then show ?thesis using st(1,2) dr pl qs qs' by (simp add: answers_def)
  next
    case (Cons k' ks')
    with Cons.prems(2) have j1: "j + 1 < length items" by simp
    then have "drop (j + 1) items = items ! (j + 1) # drop (j + 2) items"
      by (simp add: Cons_nth_drop_Suc)
    with qs' Cons obtain q' where q': "asQuizQuestion (items ! (j + 1)) = Some q'"
      by (cases qs') auto
    from st(3)[OF j1 q'] have P': "presenting items (j + 1) q' ?s'" .
    have len: "j + 1 + length ks \<le> length items" using Cons.prems(2) by simp
    from Cons.IH[OF P' len qs' rest] st(1,2) dr pl qs show ?thesis by simp
  qed
qed

lemma startQuiz_fields:
  "currentQuestionIndex (state_of (startQuiz js s)) = 0"
  "score (state_of (startQuiz js s)) = 0"
  "incorrectAnswers (state_of (startQuiz js s)) = []"
  "\<not> isReviewingMistakes (state_of (startQuiz js s))"
  "quizQuestions (state_of (startQuiz js s)) = quizQuestions s"
  "gatewayCalls (state_of (startQuiz js s)) = gatewayCalls s"
  "\<not> results_shown (state_of (startQuiz js s))"
  "quizContent_shown (state_of (startQuiz js s))"
  "reviewMistakesBtn_hidden (state_of (startQuiz js s))"
  "generations (state_of (startQuiz js s)) = generations s"
  by (simp_all add: startQuiz_def displayCurrentQuestion_keeps results_shown_def
        quizContent_shown_def)

lemma startQuiz_presenting:
  assumes "quizQuestions s = JArray items" "items \<noteq> []" "asQuizQuestion (items ! 0) = Some q"
  shows "presenting items 0 q (state_of (startQuiz js s))"
proof -
  let ?s0 = "s\<lparr>currentQuestionIndex := 0, score := 0, incorrectAnswers := [],
                isReviewingMistakes := False,
                resultsSection_hidden := True, reviewMistakesBtn_hidden := True,
                quizSection_hidden := False, quizContentContainer_hidden := False,
                quizLoadingContainer_hidden := True\<rparr>"
  have "presenting items (currentQuestionIndex ?s0) q (state_of (displayCurrentQuestion js ?s0))"
    using assms by (intro displayCurrentQuestion_presenting(1)) (simp_all add: quizContent_shown_def)
  then show ?thesis by (simp add: startQuiz_def)
qed

text \<open>The test of \<open>quizTry\<close> on a reply whose \<^verbatim>\<open>questions\<close> are an array.\<close>

lemma nonEmptyMember_array:
  assumes "property data k = Some (JArray items)"
  shows "nonEmptyMember js d data k = (if items = [] then Inr None else Inr (Some (JArray items)))"
proof -
  from assms have "truthy data" by (cases data) (simp_all add: property_def)
  with assms show ?thesis by (simp add: nonEmptyMember_def)
qed

lemma quizTry_array:
  assumes "property quizData ''questions'' = Some (JArray items)" "items \<noteq> []"
  shows "quizTry js (Parsed quizData) s =
           startQuiz js (s\<lparr>quizQuestions := JArray items, quizLoadingContainer_hidden := True,
                           quizContentContainer_hidden := False\<rparr>)"
  using assms by (simp add: quizTry_def nonEmptyMember_array)

lemma startQuizBtn_resume_array:
  assumes "property quizData ''questions'' = Some (JArray items)" "items \<noteq> []"
  shows "score (startQuizBtn_resume js (Parsed quizData) s) = 0"
    and "incorrectAnswers (startQuizBtn_resume js (Parsed quizData) s) = []"
    and "quizQuestions (startQuizBtn_resume js (Parsed quizData) s) = JArray items"
    and "currentQuestionIndex (startQuizBtn_resume js (Parsed quizData) s) = 0"
    and "quizContent_shown (startQuizBtn_resume js (Parsed quizData) s)"
    and "asQuizQuestion (items ! 0) = Some q \<Longrightarrow>
           presenting items 0 q (startQuizBtn_resume js (Parsed quizData) s)"
proof -
  let ?s0 = "s\<lparr>quizQuestions := JArray items, quizLoadingContainer_hidden := True,
                quizContentContainer_hidden := False\<rparr>"
  let ?t = "state_of (startQuiz js ?s0)"
  have r: "startQuizBtn_resume js (Parsed quizData) s =
             (case startQuiz js ?s0 of
                Normal s' \<Rightarrow> s'
              | Throw e s' \<Rightarrow>
                  s'\<lparr>quizLoadingStatus :=
                       str ''Could not generate a quiz. The material might be too short or unsupported. Please try again with a different file.'',
                     quizTimeouts := quizTimeouts s' + 1\<rparr>)
             \<lparr>askBtn_disabled := False, startQuizBtn_disabled := False,
              startGameBtn_disabled := False\<rparr>"
    by (simp add: startQuizBtn_resume_def quizTry_array[OF assms])
  note f = startQuiz_fields[of js ?s0]
  show "score (startQuizBtn_resume js (Parsed quizData) s) = 0"
    using f(2) by (cases "startQuiz js ?s0") (simp_all add: r)
  show "incorrectAnswers (startQuizBtn_resume js (Parsed quizData) s) = []"
    using f(3) by (cases "startQuiz js ?s0") (simp_all add: r)
  show "quizQuestions (startQuizBtn_resume js (Parsed quizData) s) = JArray items"
    using f(5) by (cases "startQuiz js ?s0") (simp_all add: r)
  show "currentQuestionIndex (startQuizBtn_resume js (Parsed quizData) s) = 0"
    using f(1) by (cases "startQuiz js ?s0") (simp_all add: r)
  show "quizContent_shown (startQuizBtn_resume js (Parsed quizData) s)"
    using f(8) by (cases "startQuiz js ?s0") (simp_all add: r quizContent_shown_def)
  show "presenting items 0 q (startQuizBtn_resume js (Parsed quizData) s)"
    if "asQuizQuestion (items ! 0) = Some q"
    using startQuiz_presenting[of ?s0 items q js] assms(2) that
    by (cases "startQuiz js ?s0") (simp_all add: r presenting_def quizContent_shown_def)
qed

text \<open>
  Claim C1. A reply has been received whose \<^verbatim>\<open>questions\<close> are the array \<open>items\<close>, and the user
  answers its first questions in turn, choosing option \<open>k\<close> of each and clicking next; the
  questions answered are questions of the interface (\<open>qs\<close>). Then, for every \<^verbatim>\<open>trim\<close> and
  \<^verbatim>\<open>toLowerCase\<close> an engine may have, the score is the number of choices whose text equals
  the question's \<^verbatim>\<open>correctAnswer\<close> after \<^verbatim>\<open>trim\<close> and \<^verbatim>\<open>toLowerCase\<close> of both, and the mistake
  log holds, in order, the question and the chosen text of every other choice. One call of
  \<open>handleOptionClick\<close> with two strings adds exactly 1 to the score and leaves the log alone
  when the two normalised strings are equal; otherwise it leaves the score alone and appends
  the current question with the selected text to the log.
\<close>

theorem score_counts_correct_selections:
  assumes "property quizData ''questions'' = Some (JArray items)" and "items \<noteq> []"
    and "length ks \<le> length items"
    and "map asQuizQuestion (take (length ks) items) = map Some qs"
    and "\<forall>(q, k) \<in> set (zip qs ks). k < length (options q)"
  shows "score (play js (QuizReply (Parsed quizData) # answers ks) s) =
           length (filter (\<lambda>(q, k). toLowerCase js (trim js (options q ! k)) =
                                     toLowerCase js (trim js (correctAnswer q)))
                     (zip qs ks)) \<and>
         incorrectAnswers (play js (QuizReply (Parsed quizData) # answers ks) s) =
           map (\<lambda>(item, q, k). \<lparr>mistake_question = Some item, selected = options q ! k\<rparr>)
             (filter (\<lambda>(item, q, k). toLowerCase js (trim js (options q ! k)) \<noteq>
                                       toLowerCase js (trim js (correctAnswer q)))
                (zip items (zip qs ks))) \<and>
         score (state_of (handleOptionClick js (JString a) (Some (JString c)) b t)) =
           (if toLowerCase js (trim js a) = toLowerCase js (trim js c) then score t + 1
            else score t) \<and>
         incorrectAnswers (state_of (handleOptionClick js (JString a) (Some (JString c)) b t)) =
           (if toLowerCase js (trim js a) = toLowerCase js (trim js c) \<or> quizQuestions t = JNull
            then incorrectAnswers t
            else incorrectAnswers t @
                   [\<lparr>mistake_question = element (quizQuestions t) (currentQuestionIndex t),
                     selected = a\<rparr>])"
proof -
  let ?s0 = "startQuizBtn_resume js (Parsed quizData) s"
  note start = startQuizBtn_resume_array[OF assms(1,2), where js = js and s = s]
  have pl: "play js (QuizReply (Parsed quizData) # answers ks) s = play js (answers ks) ?s0"
    by simp
  have "score (play js (answers ks) ?s0) =
           length (filter (\<lambda>(q, k). toLowerCase js (trim js (options q ! k)) =
                                     toLowerCase js (trim js (correctAnswer q)))
                     (zip qs ks)) \<and>
         incorrectAnswers (play js (answers ks) ?s0) =
           map (\<lambda>(item, q, k). \<lparr>mistake_question = Some item, selected = options q ! k\<rparr>)
             (filter (\<lambda>(item, q, k). toLowerCase js (trim js (options q ! k)) \<noteq>
                                       toLowerCase js (trim js (correctAnswer q)))
                (zip items (zip qs ks)))"
  proof (cases ks)
    case Nil
    then show ?thesis using start(1,2) by (simp add: answers_def)
  next
    case (Cons k ks')
    from assms(2) obtain i items' where items: "items = i # items'" by (cases items) auto
    with assms(4) Cons obtain q where q: "asQuizQuestion (items ! 0) = Some q"
      by (cases qs) auto
    from session_from[OF start(6)[OF q], of ks qs] assms(3,4,5) start(1,2)
    show ?thesis by simp
  qed
  with pl show ?thesis
    by (simp add: handleOptionClick_score handleOptionClick_incorrectAnswers)
qed

theorem score_counts_correct_selections_witness:
  "property (quizReply example_quiz) ''questions'' = Some (JArray example_quiz) \<and>
   example_quiz \<noteq> [] \<and> length [0, 0 :: nat] \<le> length example_quiz \<and>
   map asQuizQuestion (take (length [0, 0 :: nat]) example_quiz) = map Some [q1, q2] \<and>
   list_all (\<lambda>(q, k). k < length (options q)) (zip [q1, q2] [0, 0]) \<and>
   score (play example_engine (QuizReply (Parsed (quizReply example_quiz)) # answers [0, 0])
            uploaded) = 1 \<and>
   incorrectAnswers
     (play example_engine (QuizReply (Parsed (quizReply example_quiz)) # answers [0, 0])
        uploaded) =
     [\<lparr>mistake_question = Some (questionJSON q2), selected = str ''3''\<rparr>]"
proof -
  have p: "property (quizReply example_quiz) ''questions'' = Some (JArray example_quiz)"
    by (simp add: quizReply_def property_def)
  have e: "example_quiz \<noteq> []" "length [0, 0 :: nat] \<le> length example_quiz"
    "map asQuizQuestion (take (length [0, 0 :: nat]) example_quiz) = map Some [q1, q2]"
    by (simp_all add: example_quiz_def)
  have h: "\<forall>(q, k) \<in> set (zip [q1, q2] [0, 0]). k < length (options q)"
    by (simp add: q1_def q2_def)
  have n: "toLowerCase example_engine (trim example_engine (str ''Paris'')) =
           toLowerCase example_engine (trim example_engine (str '' paris ''))"
    "toLowerCase example_engine (trim example_engine (str ''3'')) \<noteq>
     toLowerCase example_engine (trim example_engine (str ''4''))"
    by code_simp+
  from score_counts_correct_selections[OF p e h, where js = example_engine and s = uploaded]
    n p e h
  show ?thesis
    by (simp add: q1_def q2_def example_quiz_def)
qed

section \<open>Quiz: results\<close>

lemma showResults_array:
  assumes "quizQuestions s = JArray items"
  shows "showResults js s =
           Normal (s\<lparr>quizSection_hidden := True, resultsSection_hidden := False,
                     reviewMistakesBtn_hidden :=
                       \<not> (js_less (js_div (score s) (length items)) (6 / 10) \<and>
                          length (incorrectAnswers s) > 0)\<rparr>)"
  using assms by (simp add: showResults_def Let_def)

lemma showResults_button:
  "\<not> throws (showResults js s) \<Longrightarrow>
     reviewMistakesBtn_hidden (state_of (showResults js s)) = (\<not> reviewCondition js s)"
  "throws (showResults js s) \<Longrightarrow>
     reviewMistakesBtn_hidden (state_of (showResults js s)) = reviewMistakesBtn_hidden s"
  "reviewCondition js s \<Longrightarrow> \<not> throws (showResults js s)"
  by (auto simp add: showResults_def Let_def reviewCondition_def split: option.splits if_splits)

lemma reviewCondition_array:
  assumes "quizQuestions s = JArray items" "items \<noteq> []"
  shows "reviewCondition js s =
           (real (score s) / real (length items) < 6 / 10 \<and> incorrectAnswers s \<noteq> [])"
  using assms by (simp add: reviewCondition_def js_div_def)

lemma not_reviewing_update:
  assumes "\<not> isReviewingMistakes s"
  shows "s\<lparr>isReviewingMistakes := False\<rparr> = s"
  using assms by (cases s) simp

lemma nextQuestionBtn_click_last:
  assumes "quizQuestions s = JArray items"
    "(if isReviewingMistakes s then length (incorrectAnswers s) else length items) \<le>
       currentQuestionIndex s + 1"
  shows "nextQuestionBtn_click js s =
           showResults js (s\<lparr>currentQuestionIndex := currentQuestionIndex s + 1,
                              isReviewingMistakes := False\<rparr>)"
proof (cases "isReviewingMistakes s")
  case True
  with assms show ?thesis by (simp add: nextQuestionBtn_click_def Let_def)
next
  case False
  let ?s1 = "s\<lparr>currentQuestionIndex := currentQuestionIndex s + 1\<rparr>"
  from False have "?s1\<lparr>isReviewingMistakes := False\<rparr> = ?s1"
    by (intro not_reviewing_update) simp
  moreover from False assms have "nextQuestionBtn_click js s = showResults js ?s1"
    by (simp add: nextQuestionBtn_click_array[of _ items])
  ultimately show ?thesis by simp
qed

text \<open>
  Claim C2. On a quiz of at least one question (the questions are an array that is not
  empty), \<open>showResults\<close> shows the results and shows \<^verbatim>\<open>reviewMistakesBtn\<close> exactly when the score
  divided by the number of questions is below \<open>6/10\<close> and the mistake log is not empty; in
  every other case it hides the button. The same holds of the click on next that leaves the
  last question, or the last mistake of a review: it shows the results, with the button
  decided by that test.
\<close>

theorem review_offered_iff:
  assumes "quizQuestions s = JArray items" and "items \<noteq> []"
  shows "results_shown (state_of (showResults js s)) \<and>
         (\<not> reviewMistakesBtn_hidden (state_of (showResults js s))) =
           (real (score s) / real (length items) < 6 / 10 \<and> incorrectAnswers s \<noteq> []) \<and>
         (quizContent_shown s \<and> \<not> nextQuestionBtn_hidden s \<and>
          (if isReviewingMistakes s then length (incorrectAnswers s) else length items) \<le>
            currentQuestionIndex s + 1 \<longrightarrow>
            results_shown (state_of (fire js NextQuestionBtnClick s)) \<and>
            (\<not> reviewMistakesBtn_hidden (state_of (fire js NextQuestionBtnClick s))) =
              (real (score s) / real (length items) < 6 / 10 \<and> incorrectAnswers s \<noteq> []))"
proof -
  let ?s1 = "s\<lparr>currentQuestionIndex := currentQuestionIndex s + 1, isReviewingMistakes := False\<rparr>"
  have 1: "results_shown (state_of (showResults js s)) \<and>
         (\<not> reviewMistakesBtn_hidden (state_of (showResults js s))) =
           (real (score s) / real (length items) < 6 / 10 \<and> incorrectAnswers s \<noteq> [])"
    using assms by (simp add: showResults_array[of _ items] results_shown_def js_div_def)
  have 2: "results_shown (state_of (showResults js ?s1)) \<and>
         (\<not> reviewMistakesBtn_hidden (state_of (showResults js ?s1))) =
           (real (score s) / real (length items) < 6 / 10 \<and> incorrectAnswers s \<noteq> [])"
    using assms by (simp add: showResults_array[of _ items] results_shown_def js_div_def)
  show ?thesis
    using 1 2 nextQuestionBtn_click_last[OF assms(1), of js] by auto
qed

lemma example_results_fields:
  "quizQuestions example_results = JArray example_quiz" "score example_results = 1"
  "incorrectAnswers example_results =
     [\<lparr>mistake_question = Some (questionJSON q2), selected = str ''3''\<rparr>]"
  "results_shown example_results" "\<not> reviewMistakesBtn_hidden example_results"
  "\<not> isReviewingMistakes example_results" "gatewayCalls example_results = 1"
  by code_simp+

theorem review_offered_iff_witness:
  "quizQuestions example_results = JArray example_quiz \<and> example_quiz \<noteq> [] \<and>
   results_shown (state_of (showResults example_engine example_results)) \<and>
   \<not> reviewMistakesBtn_hidden (state_of (showResults example_engine example_results))"
  using review_offered_iff[of example_results example_quiz example_engine]
  by (simp add: example_results_fields) (simp add: example_quiz_def)

section \<open>Quiz: starting, restarting and leaving\<close>

lemma nonEmptyMember_refused:
  "\<not> truthy data \<Longrightarrow> nonEmptyMember js d data k = Inr None"
  "property data k = None \<Longrightarrow> nonEmptyMember js d data k = Inr None"
  "property data k = Some v \<Longrightarrow> \<not> truthy v \<Longrightarrow> nonEmptyMember js d data k = Inr None"
  "property data k = Some (JArray []) \<Longrightarrow> nonEmptyMember js d data k = Inr None"
  by (simp_all add: nonEmptyMember_def)

lemma startQuizBtn_resume_throw:
  assumes "quizTry js r s = Throw e s"
  shows "startQuizBtn_resume js r s =
           s\<lparr>quizLoadingStatus :=
               str ''Could not generate a quiz. The material might be too short or unsupported. Please try again with a different file.'',
             quizTimeouts := quizTimeouts s + 1,
             askBtn_disabled := False, startQuizBtn_disabled := False,
             startGameBtn_disabled := False\<rparr>"
  using assms by (simp add: startQuizBtn_resume_def)

lemma quizTry_refused:
  assumes "nonEmptyMember js ''quizData'' quizData ''questions'' = Inr None"
  shows "quizTry js (Parsed quizData) s = Throw InvalidQuizFormat s"
  using assms by (simp add: quizTry_def)

lemma quizTry_accepted:
  assumes "nonEmptyMember js ''quizData'' quizData ''questions'' = Inr (Some v)"
  shows "quizTry js (Parsed quizData) s =
           startQuiz js (s\<lparr>quizQuestions := v, quizLoadingContainer_hidden := True,
                           quizContentContainer_hidden := False\<rparr>)"
  using assms by (simp add: quizTry_def)

lemma startQuizBtn_resume_accepted:
  assumes "nonEmptyMember js ''quizData'' quizData ''questions'' = Inr (Some v)"
  shows "quizQuestions (startQuizBtn_resume js (Parsed quizData) s) = v"
    and "score (startQuizBtn_resume js (Parsed quizData) s) = 0"
    and "incorrectAnswers (startQuizBtn_resume js (Parsed quizData) s) = []"
    and "currentQuestionIndex (startQuizBtn_resume js (Parsed quizData) s) = 0"
    and "\<not> isReviewingMistakes (startQuizBtn_resume js (Parsed quizData) s)"
    and "quizContent_shown (startQuizBtn_resume js (Parsed quizData) s)"
    and "\<not> results_shown (startQuizBtn_resume js (Parsed quizData) s)"
    and "reviewMistakesBtn_hidden (startQuizBtn_resume js (Parsed quizData) s)"
proof -
  let ?s0 = "s\<lparr>quizQuestions := v, quizLoadingContainer_hidden := True,
                quizContentContainer_hidden := False\<rparr>"
  note f = startQuiz_fields[of js ?s0]
  have r: "startQuizBtn_resume js (Parsed quizData) s =
             (case startQuiz js ?s0 of
                Normal s' \<Rightarrow> s'
              | Throw e s' \<Rightarrow>
                  s'\<lparr>quizLoadingStatus :=
                       str ''Could not generate a quiz. The material might be too short or unsupported. Please try again with a different file.'',
                     quizTimeouts := quizTimeouts s' + 1\<rparr>)
             \<lparr>askBtn_disabled := False, startQuizBtn_disabled := False,
              startGameBtn_disabled := False\<rparr>"
    by (simp add: startQuizBtn_resume_def quizTry_accepted[OF assms])
  show "quizQuestions (startQuizBtn_resume js (Parsed quizData) s) = v"
    using f(5) by (cases "startQuiz js ?s0") (simp_all add: r)
  show "score (startQuizBtn_resume js (Parsed quizData) s) = 0"
    using f(2) by (cases "startQuiz js ?s0") (simp_all add: r)
  show "incorrectAnswers (startQuizBtn_resume js (Parsed quizData) s) = []"
    using f(3) by (cases "startQuiz js ?s0") (simp_all add: r)
  show "currentQuestionIndex (startQuizBtn_resume js (Parsed quizData) s) = 0"
    using f(1) by (cases "startQuiz js ?s0") (simp_all add: r)
  show "\<not> isReviewingMistakes (startQuizBtn_resume js (Parsed quizData) s)"
    using f(4) by (cases "startQuiz js ?s0") (simp_all add: r)
  show "quizContent_shown (startQuizBtn_resume js (Parsed quizData) s)"
    using f(8) by (cases "startQuiz js ?s0") (simp_all add: r quizContent_shown_def)
  show "\<not> results_shown (startQuizBtn_resume js (Parsed quizData) s)"
    using f(7) by (cases "startQuiz js ?s0") (simp_all add: r results_shown_def)
  show "reviewMistakesBtn_hidden (startQuizBtn_resume js (Parsed quizData) s)"
    using f(9) by (cases "startQuiz js ?s0") (simp_all add: r)
qed

lemma startQuizBtn_resume_started:
  assumes "property quizData ''questions'' = Some (JArray items)" "items \<noteq> []"
    "asQuizQuestion (items ! 0) = Some q"
  shows "quizLoadingStatus (startQuizBtn_resume js (Parsed quizData) s) = quizLoadingStatus s"
    and "quizTimeouts (startQuizBtn_resume js (Parsed quizData) s) = quizTimeouts s"
proof -
  let ?s0 = "s\<lparr>quizQuestions := JArray items, quizLoadingContainer_hidden := True,
                quizContentContainer_hidden := False\<rparr>"
  let ?s1 = "?s0\<lparr>currentQuestionIndex := 0, score := 0, incorrectAnswers := [],
                isReviewingMistakes := False,
                resultsSection_hidden := True, reviewMistakesBtn_hidden := True,
                quizSection_hidden := False, quizContentContainer_hidden := False,
                quizLoadingContainer_hidden := True\<rparr>"
  have nt: "\<not> throws (displayCurrentQuestion js ?s1)"
    using assms by (intro displayCurrentQuestion_presenting(2)[where items = items and q = q])
      (simp_all add: quizContent_shown_def)
  have keep: "quizLoadingStatus (state_of (displayCurrentQuestion js ?s1)) = quizLoadingStatus s"
    "quizTimeouts (state_of (displayCurrentQuestion js ?s1)) = quizTimeouts s"
    by (simp_all add: displayCurrentQuestion_def Let_def split: option.splits)
  have r: "startQuizBtn_resume js (Parsed quizData) s =
             (case displayCurrentQuestion js ?s1 of
                Normal s' \<Rightarrow> s'
              | Throw e s' \<Rightarrow>
                  s'\<lparr>quizLoadingStatus :=
                       str ''Could not generate a quiz. The material might be too short or unsupported. Please try again with a different file.'',
                     quizTimeouts := quizTimeouts s' + 1\<rparr>)
             \<lparr>askBtn_disabled := False, startQuizBtn_disabled := False,
              startGameBtn_disabled := False\<rparr>"
    by (simp add: startQuizBtn_resume_def quizTry_array[OF assms(1,2)] startQuiz_def)
  show "quizLoadingStatus (startQuizBtn_resume js (Parsed quizData) s) = quizLoadingStatus s"
    using nt keep(1) by (cases "displayCurrentQuestion js ?s1") (simp_all add: r)
  show "quizTimeouts (startQuizBtn_resume js (Parsed quizData) s) = quizTimeouts s"
    using nt keep(2) by (cases "displayCurrentQuestion js ?s1") (simp_all add: r)
qed

lemma example_replies:
  "property (quizReply items) ''questions'' = Some (JArray items)"
  "property (gameReply items) ''flashcards'' = Some (JArray items)"
  by (simp_all add: quizReply_def gameReply_def property_def)

text \<open>
  Claim C6 says that a successful generation yields exactly five questions, and that a
  malformed structure makes the generation fail and the quiz not start. The handler only
  tests that \<^verbatim>\<open>questions\<close> is there and that its length is positive. A reply with two questions
  starts a quiz of two. A reply whose second element has no \<^verbatim>\<open>options\<close> starts a quiz as well:
  no error is shown and no timer is set, and the first question is on display. A reply whose
  only element has no \<^verbatim>\<open>options\<close> fails with a TypeError, but not before it has replaced
  the questions and shown the quiz.
\<close>

theorem unchecked_replies_start_a_quiz:
  "presenting example_quiz 0 q1
     (startQuizBtn_resume example_engine (Parsed (quizReply example_quiz))
        (startQuizBtn_click uploaded)) \<and>
   length example_quiz = 2 \<and>
   asQuizQuestion no_options = None \<and>
   presenting [questionJSON q1, no_options] 0 q1
     (startQuizBtn_resume example_engine (Parsed (quizReply [questionJSON q1, no_options]))
        (startQuizBtn_click uploaded)) \<and>
   quizTimeouts
     (startQuizBtn_resume example_engine (Parsed (quizReply [questionJSON q1, no_options]))
        (startQuizBtn_click uploaded)) = 0 \<and>
   quizLoadingStatus
     (startQuizBtn_resume example_engine (Parsed (quizReply [questionJSON q1, no_options]))
        (startQuizBtn_click uploaded)) = str ''Generating quiz...'' \<and>
   quizQuestions
     (startQuizBtn_resume example_engine (Parsed (quizReply [no_options]))
        (startQuizBtn_click uploaded)) = JArray [no_options] \<and>
   quizContent_shown
     (startQuizBtn_resume example_engine (Parsed (quizReply [no_options]))
        (startQuizBtn_click uploaded)) \<and>
   quizTimeouts
     (startQuizBtn_resume example_engine (Parsed (quizReply [no_options]))
        (startQuizBtn_click uploaded)) = 1"
proof -
  have s: "quizTimeouts (startQuizBtn_click uploaded) = 0"
    "quizLoadingStatus (startQuizBtn_click uploaded) = str ''Generating quiz...''"
    by code_simp+
  have n: "asQuizQuestion no_options = None"
    by code_simp
  have t: "quizTimeouts
     (startQuizBtn_resume example_engine (Parsed (quizReply [no_options]))
        (startQuizBtn_click uploaded)) = 1"
    by code_simp
  show ?thesis
    using startQuizBtn_resume_array(6)[OF example_replies(1), of example_quiz q1 example_engine
        "startQuizBtn_click uploaded"]
      startQuizBtn_resume_array(6)[OF example_replies(1), of "[questionJSON q1, no_options]" q1
        example_engine "startQuizBtn_click uploaded"]
      startQuizBtn_resume_started[OF example_replies(1), of "[questionJSON q1, no_options]" q1
        example_engine "startQuizBtn_click uploaded"]
      startQuizBtn_resume_array(3,5)[OF example_replies(1), of "[no_options]" example_engine
        "startQuizBtn_click uploaded"]
      s n t
    by (simp add: example_quiz_def)
qed

text \<open>
  Claim C6, amended. The generation succeeds, and the quiz starts, whenever the reply is a
  value with a non-empty array \<^verbatim>\<open>questions\<close> whose first element is a question of the
  interface, whatever the length of the array and whatever its other elements: the array
  becomes the quiz, its first question is on display, the score is 0, the mistake log is
  empty, and no error is shown. The elements of \<^verbatim>\<open>questions\<close> are not checked: whenever the
  test of the handler accepts the reply, \<^verbatim>\<open>questions\<close> replaces the questions of the page,
  index, score and log are reset and the quiz is shown, before anything is read of an
  element. When the test refuses the reply, the generation fails with the error
  \<^verbatim>\<open>Invalid quiz format received from AI.\<close>; the test refuses a falsy value, a value without
  \<^verbatim>\<open>questions\<close>, falsy \<^verbatim>\<open>questions\<close> and an empty array of them. A rejected call fails with the
  value it is rejected with, and a reply that is not JSON with the error of the parser.
  Whenever the generation fails before the quiz state is touched, as it does in all these
  cases, the quiz does not start: questions, log, index, score, option buttons and the
  visibility of the quiz sections are unchanged, the error text is shown and a timer is set,
  whose callback hides the quiz section and shows the question section again.
\<close>

theorem quiz_reply_outcomes:
  "(property quizData ''questions'' = Some (JArray items) \<and> items \<noteq> [] \<and>
    asQuizQuestion (items ! 0) = Some q \<longrightarrow>
      presenting items 0 q (startQuizBtn_resume js (Parsed quizData) s) \<and>
      score (startQuizBtn_resume js (Parsed quizData) s) = 0 \<and>
      incorrectAnswers (startQuizBtn_resume js (Parsed quizData) s) = [] \<and>
      quizLoadingStatus (startQuizBtn_resume js (Parsed quizData) s) = quizLoadingStatus s \<and>
      quizTimeouts (startQuizBtn_resume js (Parsed quizData) s) = quizTimeouts s) \<and>
   (nonEmptyMember js ''quizData'' quizData ''questions'' = Inr (Some v) \<longrightarrow>
      quizQuestions (startQuizBtn_resume js (Parsed quizData) s) = v \<and>
      currentQuestionIndex (startQuizBtn_resume js (Parsed quizData) s) = 0 \<and>
      score (startQuizBtn_resume js (Parsed quizData) s) = 0 \<and>
      incorrectAnswers (startQuizBtn_resume js (Parsed quizData) s) = [] \<and>
      quizContent_shown (startQuizBtn_resume js (Parsed quizData) s)) \<and>
   (nonEmptyMember js ''quizData'' quizData ''questions'' = Inr None \<longrightarrow>
      quizTry js (Parsed quizData) s = Throw InvalidQuizFormat s) \<and>
   (\<not> truthy quizData \<or> property quizData ''questions'' = None \<or>
    (\<exists>w. property quizData ''questions'' = Some w \<and> \<not> truthy w) \<or>
    property quizData ''questions'' = Some (JArray []) \<longrightarrow>
      nonEmptyMember js ''quizData'' quizData ''questions'' = Inr None) \<and>
   quizTry js (Rejected e) s = Throw e s \<and>
   quizTry js (NotJSON m) s = Throw (ErrorObject m) s \<and>
   (quizTry js r s = Throw e' s \<longrightarrow>
      quiz_part (startQuizBtn_resume js r s) = quiz_part s \<and>
      quizLoadingStatus (startQuizBtn_resume js r s) =
        str ''Could not generate a quiz. The material might be too short or unsupported. Please try again with a different file.'' \<and>
      quizTimeouts (startQuizBtn_resume js r s) = quizTimeouts s + 1) \<and>
   quizSection_hidden (quizErrorTimeout s) \<and> \<not> qaSection_hidden (quizErrorTimeout s)"
proof (intro conjI impI)
  assume a: "property quizData ''questions'' = Some (JArray items) \<and> items \<noteq> [] \<and>
    asQuizQuestion (items ! 0) = Some q"
  then have p: "property quizData ''questions'' = Some (JArray items)" and ne: "items \<noteq> []"
    and q: "asQuizQuestion (items ! 0) = Some q"
    by simp_all
  show "presenting items 0 q (startQuizBtn_resume js (Parsed quizData) s)"
    using startQuizBtn_resume_array(6)[OF p ne q] .
  show "score (startQuizBtn_resume js (Parsed quizData) s) = 0"
    using startQuizBtn_resume_array(1)[OF p ne] .
  show "incorrectAnswers (startQuizBtn_resume js (Parsed quizData) s) = []"
    using startQuizBtn_resume_array(2)[OF p ne] .
  show "quizLoadingStatus (startQuizBtn_resume js (Parsed quizData) s) = quizLoadingStatus s"
    using startQuizBtn_resume_started(1)[OF p ne q] .
  show "quizTimeouts (startQuizBtn_resume js (Parsed quizData) s) = quizTimeouts s"
    using startQuizBtn_resume_started(2)[OF p ne q] .
next
  assume a: "nonEmptyMember js ''quizData'' quizData ''questions'' = Inr (Some v)"
  note f = startQuizBtn_resume_accepted[OF a, of s]
  show "quizQuestions (startQuizBtn_resume js (Parsed quizData) s) = v" using f(1) .
  show "currentQuestionIndex (startQuizBtn_resume js (Parsed quizData) s) = 0" using f(4) .
  show "score (startQuizBtn_resume js (Parsed quizData) s) = 0" using f(2) .
  show "incorrectAnswers (startQuizBtn_resume js (Parsed quizData) s) = []" using f(3) .
  show "quizContent_shown (startQuizBtn_resume js (Parsed quizData) s)" using f(6) .
next
  assume "nonEmptyMember js ''quizData'' quizData ''questions'' = Inr None"
  then show "quizTry js (Parsed quizData) s = Throw InvalidQuizFormat s"
    by (rule quizTry_refused)
next
  assume "\<not> truthy quizData \<or> property quizData ''questions'' = None \<or>
    (\<exists>w. property quizData ''questions'' = Some w \<and> \<not> truthy w) \<or>
    property quizData ''questions'' = Some (JArray [])"
  then show "nonEmptyMember js ''quizData'' quizData ''questions'' = Inr None"
    by (auto simp add: nonEmptyMember_refused)
next
  assume t: "quizTry js r s = Throw e' s"
  show "quiz_part (startQuizBtn_resume js r s) = quiz_part s"
    by (simp add: startQuizBtn_resume_throw[OF t] quiz_part_def)
  show "quizLoadingStatus (startQuizBtn_resume js r s) =
        str ''Could not generate a quiz. The material might be too short or unsupported. Please try again with a different file.''"
    by (simp add: startQuizBtn_resume_throw[OF t])
  show "quizTimeouts (startQuizBtn_resume js r s) = quizTimeouts s + 1"
    by (simp add: startQuizBtn_resume_throw[OF t])
qed (simp_all add: quizErrorTimeout_def quizTry_def)

text \<open>
  The cases of C6 on the example page: a reply of one question, a reply of none, and a reply
  whose only element is not a question.
\<close>

theorem quiz_reply_outcomes_witness:
  "property (quizReply [questionJSON q1]) ''questions'' = Some (JArray [questionJSON q1]) \<and>
   [questionJSON q1] \<noteq> [] \<and> asQuizQuestion ([questionJSON q1] ! 0) = Some q1 \<and>
   presenting [questionJSON q1] 0 q1
     (startQuizBtn_resume example_engine (Parsed (quizReply [questionJSON q1]))
        (startQuizBtn_click uploaded)) \<and>
   property (quizReply []) ''questions'' = Some (JArray []) \<and>
   nonEmptyMember example_engine ''quizData'' (quizReply []) ''questions'' = Inr None \<and>
   quizTry example_engine (Parsed (quizReply [])) (startQuizBtn_click uploaded) =
     Throw InvalidQuizFormat (startQuizBtn_click uploaded) \<and>
   quiz_part (startQuizBtn_resume example_engine (Parsed (quizReply [])) (startQuizBtn_click uploaded)) =
     quiz_part (startQuizBtn_click uploaded) \<and>
   quizTimeouts (startQuizBtn_resume example_engine (Parsed (quizReply [])) (startQuizBtn_click uploaded)) = 1 \<and>
   nonEmptyMember example_engine ''quizData'' (quizReply [no_options]) ''questions'' =
     Inr (Some (JArray [no_options])) \<and>
   quizQuestions (startQuizBtn_resume example_engine (Parsed (quizReply [no_options]))
     (startQuizBtn_click uploaded)) = JArray [no_options]"
proof -
  have t: "quizTimeouts (startQuizBtn_click uploaded) = 0" by code_simp
  have n: "nonEmptyMember example_engine ''quizData'' (quizReply [no_options]) ''questions'' =
     Inr (Some (JArray [no_options]))"
    by (simp add: nonEmptyMember_array example_replies)
  note a = quiz_reply_outcomes[where quizData = "quizReply [questionJSON q1]"
      and items = "[questionJSON q1]" and q = q1 and js = example_engine
      and s = "startQuizBtn_click uploaded" and r = "Rejected NonError" and e = NonError
      and e' = NonError and m = "[]" and v = JNull]
  note b = quiz_reply_outcomes[where quizData = "quizReply []"
      and items = "[]" and q = q1 and js = example_engine
      and s = "startQuizBtn_click uploaded" and r = "Parsed (quizReply [])" and e = NonError
      and e' = InvalidQuizFormat and m = "[]" and v = JNull]
  note c = quiz_reply_outcomes[where quizData = "quizReply [no_options]"
      and items = "[]" and q = q1 and js = example_engine
      and s = "startQuizBtn_click uploaded" and r = "Rejected NonError" and e = NonError
      and e' = NonError and m = "[]" and v = "JArray [no_options]"]
  have b1: "nonEmptyMember example_engine ''quizData'' (quizReply []) ''questions'' = Inr None"
    using b by (simp add: example_replies)
  with b have b2: "quizTry example_engine (Parsed (quizReply [])) (startQuizBtn_click uploaded) =
     Throw InvalidQuizFormat (startQuizBtn_click uploaded)"
    by simp
  with b have b3: "quiz_part (startQuizBtn_resume example_engine (Parsed (quizReply [])) (startQuizBtn_click uploaded)) =
     quiz_part (startQuizBtn_click uploaded)"
    "quizTimeouts (startQuizBtn_resume example_engine (Parsed (quizReply [])) (startQuizBtn_click uploaded)) = 1"
    using t by simp_all
  from a have a1: "presenting [questionJSON q1] 0 q1
     (startQuizBtn_resume example_engine (Parsed (quizReply [questionJSON q1]))
        (startQuizBtn_click uploaded))"
    by (simp add: example_replies)
  from c n have c1: "quizQuestions (startQuizBtn_resume example_engine (Parsed (quizReply [no_options]))
     (startQuizBtn_click uploaded)) = JArray [no_options]"
    by simp
  from a1 b1 b2 b3 c1 n show ?thesis
    by (simp add: example_replies)
qed

lemma exitQuizBtn_click_fields:
  "quizQuestions (exitQuizBtn_click s) = JArray []"
  "incorrectAnswers (exitQuizBtn_click s) = []"
  "currentQuestionIndex (exitQuizBtn_click s) = 0"
  "score (exitQuizBtn_click s) = 0"
  "\<not> isReviewingMistakes (exitQuizBtn_click s)"
  "\<not> results_shown (exitQuizBtn_click s)"
  "\<not> qaSection_hidden (exitQuizBtn_click s)"
  "gatewayCalls (exitQuizBtn_click s) = gatewayCalls s"
  by (simp_all add: exitQuizBtn_click_def results_shown_def)

text \<open>
  Claim C8 says that restart fetches a new quiz via the gateway. \<^verbatim>\<open>restartQuizBtn\<close> is bound to
  \<open>startQuiz\<close>: on the example results the click makes no call and presents the first
  question of the same quiz.
\<close>

theorem restart_fetches_nothing:
  "results_shown example_results \<and>
   gatewayCalls (state_of (fire example_engine RestartQuizBtnClick example_results)) =
     gatewayCalls example_results \<and>
   quizQuestions (state_of (fire example_engine RestartQuizBtnClick example_results)) =
     quizQuestions example_results \<and>
   presenting example_quiz 0 q1
     (state_of (fire example_engine RestartQuizBtnClick example_results))"
  using startQuiz_presenting[of example_results example_quiz q1 example_engine]
  by (simp add: example_results_fields restartQuizBtn_click_def startQuiz_fields)
     (simp add: example_quiz_def)

text \<open>
  Claim C8, amended. While the results are shown, restart resets index, score, mistake log and
  review flag and keeps the questions, without a call to the service, and presents the first
  of them again when it is a question of the interface; exit empties questions and log,
  resets index, score and review flag, hides the results and shows the question section,
  without a call to the service.
\<close>

theorem restart_and_exit:
  assumes "results_shown s"
  shows "currentQuestionIndex (state_of (fire js RestartQuizBtnClick s)) = 0 \<and>
         score (state_of (fire js RestartQuizBtnClick s)) = 0 \<and>
         incorrectAnswers (state_of (fire js RestartQuizBtnClick s)) = [] \<and>
         \<not> isReviewingMistakes (state_of (fire js RestartQuizBtnClick s)) \<and>
         quizQuestions (state_of (fire js RestartQuizBtnClick s)) = quizQuestions s \<and>
         gatewayCalls (state_of (fire js RestartQuizBtnClick s)) = gatewayCalls s \<and>
         \<not> results_shown (state_of (fire js RestartQuizBtnClick s)) \<and>
         (quizQuestions s = JArray items \<and> items \<noteq> [] \<and> asQuizQuestion (items ! 0) = Some q \<longrightarrow>
            presenting items 0 q (state_of (fire js RestartQuizBtnClick s))) \<and>
         quizQuestions (state_of (fire js ExitQuizBtnClick s)) = JArray [] \<and>
         incorrectAnswers (state_of (fire js ExitQuizBtnClick s)) = [] \<and>
         currentQuestionIndex (state_of (fire js ExitQuizBtnClick s)) = 0 \<and>
         score (state_of (fire js ExitQuizBtnClick s)) = 0 \<and>
         \<not> isReviewingMistakes (state_of (fire js ExitQuizBtnClick s)) \<and>
         \<not> results_shown (state_of (fire js ExitQuizBtnClick s)) \<and>
         \<not> qaSection_hidden (state_of (fire js ExitQuizBtnClick s)) \<and>
         gatewayCalls (state_of (fire js ExitQuizBtnClick s)) = gatewayCalls s"
  using assms
  by (simp add: restartQuizBtn_click_def startQuiz_fields startQuiz_presenting
        exitQuizBtn_click_fields)

text \<open>
  Restart and exit on the example results.
\<close>

theorem restart_and_exit_witness:
  "results_shown example_results \<and>
   score (state_of (fire example_engine RestartQuizBtnClick example_results)) = 0 \<and>
   incorrectAnswers (state_of (fire example_engine RestartQuizBtnClick example_results)) = [] \<and>
   gatewayCalls (state_of (fire example_engine RestartQuizBtnClick example_results)) = 1 \<and>
   quizQuestions example_results = JArray example_quiz \<and> example_quiz \<noteq> [] \<and>
   asQuizQuestion (example_quiz ! 0) = Some q1 \<and>
   presenting example_quiz 0 q1
     (state_of (fire example_engine RestartQuizBtnClick example_results)) \<and>
   quizQuestions (state_of (fire example_engine ExitQuizBtnClick example_results)) = JArray [] \<and>
   gatewayCalls (state_of (fire example_engine ExitQuizBtnClick example_results)) = 1"
proof -
  have "example_quiz \<noteq> []" "asQuizQuestion (example_quiz ! 0) = Some q1"
    by (simp_all add: example_quiz_def)
  with restart_and_exit[of example_results example_engine example_quiz q1]
  show ?thesis
    by (simp add: example_results_fields)
qed

section \<open>An invariant of the quiz\<close>

lemmas shown_defs = quizContent_shown_def results_shown_def

lemma quiz_inv_initial: "quiz_inv js initial"
  by (simp add: quiz_inv_def initial_def shown_defs)

lemma reviewCondition_cong:
  assumes "quizQuestions s' = quizQuestions s" "incorrectAnswers s' = incorrectAnswers s"
    "score s' = score s"
  shows "reviewCondition js s' = reviewCondition js s"
  using assms by (simp add: reviewCondition_def)

lemma quiz_inv_hide:
  assumes "quiz_inv js s"
    and "quizQuestions s' = quizQuestions s" "incorrectAnswers s' = incorrectAnswers s"
    and "score s' = score s"
    and "isReviewingMistakes s' = isReviewingMistakes s" "quizOptionsEl s' = quizOptionsEl s"
    and "reviewMistakesBtn_hidden s' = reviewMistakesBtn_hidden s"
    and "quizContent_shown s' \<Longrightarrow> quizContent_shown s"
    and "results_shown s' \<Longrightarrow> results_shown s"
  shows "quiz_inv js s'"
proof -
  have eqs: "reviewCondition js s' = reviewCondition js s"
    by (rule reviewCondition_cong) (simp_all add: assms)
  show ?thesis
    using assms(1,8,9) unfolding quiz_inv_def eqs assms(2-7) by blast
qed

lemma quiz_inv_quiz_part:
  assumes "quiz_part s' = quiz_part s" "quiz_inv js s"
  shows "quiz_inv js s'"
  using assms(2)
  by (rule quiz_inv_hide) (use assms(1) in \<open>simp_all add: quiz_part_def shown_defs\<close>)

text \<open>A quiz that has just been started.\<close>

lemma quiz_inv_fresh:
  assumes "\<not> results_shown s" "\<not> isReviewingMistakes s" "reviewMistakesBtn_hidden s"
  shows "quiz_inv js s"
  using assms by (simp add: quiz_inv_def)

lemma quiz_inv_startQuiz: "quiz_inv js (state_of (startQuiz js s))"
  by (rule quiz_inv_fresh) (simp_all add: startQuiz_fields)

lemma forEach_newReviewButton_disabled:
  "b \<in> set (fst (forEach (newReviewButton js c sel) opts)) \<Longrightarrow> disabled b"
  by (induction opts)
     (auto simp add: newReviewButton_def split: option.splits sum.splits)

text \<open>What \<open>displayMistake\<close> never changes, however it ends; and its buttons are disabled.\<close>

lemma displayMistake_keeps:
  "score (state_of (displayMistake js s)) = score s"
  "incorrectAnswers (state_of (displayMistake js s)) = incorrectAnswers s"
  "quizQuestions (state_of (displayMistake js s)) = quizQuestions s"
  "currentQuestionIndex (state_of (displayMistake js s)) = currentQuestionIndex s"
  "isReviewingMistakes (state_of (displayMistake js s)) = isReviewingMistakes s"
  "quizSection_hidden (state_of (displayMistake js s)) = quizSection_hidden s"
  "quizContentContainer_hidden (state_of (displayMistake js s)) = quizContentContainer_hidden s"
  "resultsSection_hidden (state_of (displayMistake js s)) = resultsSection_hidden s"
  "reviewMistakesBtn_hidden (state_of (displayMistake js s)) = reviewMistakesBtn_hidden s"
  "gatewayCalls (state_of (displayMistake js s)) = gatewayCalls s"
  "generations (state_of (displayMistake js s)) = generations s"
  by (simp_all add: displayMistake_def Let_def split: option.splits)

lemma displayMistake_disabled:
  "\<forall>b \<in> set (quizOptionsEl (state_of (displayMistake js s))). disabled b"
  by (auto simp add: displayMistake_def Let_def forEach_newReviewButton_disabled
        split: option.splits)

lemma quiz_inv_displayMistake:
  assumes "reviewCondition js s" "isReviewingMistakes s" "\<not> results_shown s"
  shows "quiz_inv js (state_of (displayMistake js s))"
proof -
  have "reviewCondition js (state_of (displayMistake js s))"
    using assms(1) by (simp add: reviewCondition_def displayMistake_keeps)
  with assms(2,3) displayMistake_disabled[of js s] show ?thesis
    by (simp add: quiz_inv_def displayMistake_keeps shown_defs)
qed

lemma quiz_inv_showResults:
  assumes "reviewMistakesBtn_hidden s \<or> reviewCondition js s" "\<not> isReviewingMistakes s"
  shows "quiz_inv js (state_of (showResults js s))"
proof (cases "throws (showResults js s)")
  case True
  with assms(1) showResults_button(3)[of js s] have "reviewMistakesBtn_hidden s" by blast
  with True showResults_button(2)[of js s] assms(2) show ?thesis
    by (simp add: quiz_inv_def showResults_keeps)
next
  case False
  have "reviewCondition js (state_of (showResults js s)) = reviewCondition js s"
    by (simp add: reviewCondition_def showResults_keeps)
  with False showResults_button(1)[of js s] assms(2) show ?thesis
    by (simp add: quiz_inv_def showResults_keeps)
qed

lemma quiz_inv_displayCurrentQuestion:
  assumes "quiz_inv js s" "\<not> isReviewingMistakes s"
  shows "quiz_inv js (state_of (displayCurrentQuestion js s))"
proof -
  have "reviewCondition js (state_of (displayCurrentQuestion js s)) = reviewCondition js s"
    by (simp add: reviewCondition_def displayCurrentQuestion_keeps)
  with assms show ?thesis
    by (simp add: quiz_inv_def displayCurrentQuestion_keeps shown_defs)
qed

lemma quiz_inv_index:
  assumes "quiz_inv js s"
  shows "quiz_inv js (s\<lparr>currentQuestionIndex := i\<rparr>)"
  using assms by (rule quiz_inv_hide) (simp_all add: shown_defs)

lemma quiz_inv_nextQuestionBtn_click:
  assumes inv: "quiz_inv js s" and shown: "quizContent_shown s"
  shows "quiz_inv js (state_of (nextQuestionBtn_click js s))"
proof -
  let ?s1 = "s\<lparr>currentQuestionIndex := currentQuestionIndex s + 1\<rparr>"
  have inv1: "quiz_inv js ?s1" using inv by (rule quiz_inv_index)
  from inv shown have nr: "\<not> results_shown s" by (auto simp add: quiz_inv_def)
  show ?thesis
  proof (cases "isReviewingMistakes s")
    case True
    with inv have rc: "reviewCondition js s" by (simp add: quiz_inv_def)
    show ?thesis
    proof (cases "currentQuestionIndex s + 1 < length (incorrectAnswers s)")
      case less: True
      have "quiz_inv js (state_of (displayMistake js ?s1))"
        using rc True nr
        by (intro quiz_inv_displayMistake) (simp_all add: reviewCondition_def shown_defs)
      with True less show ?thesis by (simp add: nextQuestionBtn_click_def Let_def)
    next
      case False
      have "quiz_inv js (state_of (showResults js (?s1\<lparr>isReviewingMistakes := False\<rparr>)))"
        using rc by (intro quiz_inv_showResults) (simp_all add: reviewCondition_def)
      with True False show ?thesis by (simp add: nextQuestionBtn_click_def Let_def)
    qed
  next
    case False
    with inv shown have hid: "reviewMistakesBtn_hidden s" by (simp add: quiz_inv_def)
    have a: "quiz_inv js (state_of (displayCurrentQuestion js ?s1))"
      using inv1 False by (intro quiz_inv_displayCurrentQuestion) simp_all
    have b: "quiz_inv js (state_of (showResults js ?s1))"
      using hid False by (intro quiz_inv_showResults) simp_all
    from False a b inv1 show ?thesis
      by (simp add: nextQuestionBtn_click_def Let_def split: option.splits)
  qed
qed

lemma quiz_inv_reviewMistakesBtn_click:
  assumes "quiz_inv js s" "results_shown s" "\<not> reviewMistakesBtn_hidden s"
  shows "quiz_inv js (state_of (reviewMistakesBtn_click js s))"
proof -
  from assms have "reviewCondition js s" by (simp add: quiz_inv_def)
  then show ?thesis
    unfolding reviewMistakesBtn_click_def
    by (intro quiz_inv_displayMistake) (simp_all add: reviewCondition_def shown_defs)
qed

lemma quiz_inv_exitQuizBtn_click:
  assumes "quiz_inv js s" "results_shown s"
  shows "quiz_inv js (exitQuizBtn_click s)"
proof -
  from assms have "\<not> quizContent_shown s" by (simp add: quiz_inv_def)
  then show ?thesis
    by (auto simp add: quiz_inv_def exitQuizBtn_click_def shown_defs)
qed

lemma quiz_inv_startQuizBtn_click:
  assumes "quiz_inv js s"
  shows "quiz_inv js (startQuizBtn_click s)"
  using assms
  by (rule quiz_inv_hide) (simp_all add: startQuizBtn_click_def shown_defs split: option.splits)

lemma quizTry_outcomes:
  "(\<exists>e. quizTry js r s = Throw e s) \<or>
   (\<exists>v. quizTry js r s =
           startQuiz js (s\<lparr>quizQuestions := v, quizLoadingContainer_hidden := True,
                           quizContentContainer_hidden := False\<rparr>))"
  by (auto simp add: quizTry_def split: reply.splits sum.splits option.splits)

lemma quiz_inv_startQuizBtn_resume:
  assumes "quiz_inv js s"
  shows "quiz_inv js (startQuizBtn_resume js r s)"
proof -
  from quizTry_outcomes[of js r s] show ?thesis
  proof
    assume "\<exists>e. quizTry js r s = Throw e s"
    then obtain e where e: "quizTry js r s = Throw e s" by blast
    from assms show ?thesis
      unfolding startQuizBtn_resume_throw[OF e]
      by (rule quiz_inv_hide) (simp_all add: shown_defs)
  next
    assume "\<exists>v. quizTry js r s =
           startQuiz js (s\<lparr>quizQuestions := v, quizLoadingContainer_hidden := True,
                           quizContentContainer_hidden := False\<rparr>)"
    then obtain v where v: "quizTry js r s =
           startQuiz js (s\<lparr>quizQuestions := v, quizLoadingContainer_hidden := True,
                           quizContentContainer_hidden := False\<rparr>)" by blast
    let ?c = "startQuiz js (s\<lparr>quizQuestions := v, quizLoadingContainer_hidden := True,
                           quizContentContainer_hidden := False\<rparr>)"
    note f = startQuiz_fields[of js "s\<lparr>quizQuestions := v, quizLoadingContainer_hidden := True,
                           quizContentContainer_hidden := False\<rparr>"]
    show ?thesis
      using f(4,7,9)
      by (intro quiz_inv_fresh; cases ?c)
         (simp_all add: startQuizBtn_resume_def v results_shown_def)
  qed
qed

lemma quiz_inv_quizErrorTimeout:
  assumes "quiz_inv js s"
  shows "quiz_inv js (quizErrorTimeout s)"
  using assms by (rule quiz_inv_hide) (simp_all add: quizErrorTimeout_def shown_defs)

lemma quiz_inv_handleOptionClick:
  assumes "quiz_inv js s" "quizContent_shown s" "\<not> isReviewingMistakes s"
  shows "quiz_inv js (state_of (handleOptionClick js a c k s))"
proof -
  from assms have "\<not> results_shown s" "reviewMistakesBtn_hidden s"
    by (auto simp add: quiz_inv_def)
  with assms(3) show ?thesis
    by (simp add: quiz_inv_def handleOptionClick_keeps)
qed

lemma quiz_inv_optionBtn_click:
  assumes "quiz_inv js s" "quizContent_shown s"
  shows "quiz_inv js (state_of (optionBtn_click js k s))"
proof (cases "elemAt (quizOptionsEl s) k")
  case None
  with assms show ?thesis by (simp add: optionBtn_click_def)
next
  case (Some b)
  then have b: "b \<in> set (quizOptionsEl s)" by (auto simp: elemAt_def split: if_splits)
  show ?thesis
  proof (cases "disabled b")
    case True
    with Some assms show ?thesis by (simp add: optionBtn_click_def)
  next
    case False
    with b assms(1) have "\<not> isReviewingMistakes s" by (auto simp add: quiz_inv_def)
    from quiz_inv_handleOptionClick[OF assms this] Some assms(1) show ?thesis
      by (auto simp add: optionBtn_click_def split: option.splits)
  qed
qed

lemma quiz_inv_loadHistoryItem:
  assumes "quiz_inv js s"
  shows "quiz_inv js (loadHistoryItem i s)"
  using assms
  by (rule quiz_inv_hide)
     (auto simp add: loadHistoryItem_def closeSidebar_def shown_defs split: option.splits if_splits)

text \<open>The handlers of the flashcards and of the history leave the quiz alone.\<close>

lemma quiz_part_showGameResults: "quiz_part (state_of (showGameResults js s)) = quiz_part s"
  by (simp add: showGameResults_def Let_def quiz_part_def)

lemma quiz_part_displayCurrentCard: "quiz_part (state_of (displayCurrentCard js s)) = quiz_part s"
  by (simp add: displayCurrentCard_def showGameResults_def Let_def quiz_part_def
        split: option.splits)

lemma quiz_part_startGame: "quiz_part (state_of (startGame js s)) = quiz_part s"
  by (simp add: startGame_def quiz_part_displayCurrentCard) (simp add: quiz_part_def)

lemma quiz_part_advanceCard: "quiz_part (state_of (advanceCard js s)) = quiz_part s"
  by (simp add: advanceCard_def quiz_part_displayCurrentCard) (simp add: quiz_part_def)

lemma quiz_part_updates [simp]:
  "quiz_part (s\<lparr>knownCardsCount := a\<rparr>) = quiz_part s"
  "quiz_part (s\<lparr>generations := b\<rparr>) = quiz_part s"
  "quiz_part (s\<lparr>exitListeners := c\<rparr>) = quiz_part s"
  "quiz_part (s\<lparr>flashcards := d\<rparr>) = quiz_part s"
  "quiz_part (s\<lparr>gameLoadingContainer_hidden := e\<rparr>) = quiz_part s"
  "quiz_part (s\<lparr>gameContainer_hidden := f\<rparr>) = quiz_part s"
  "quiz_part (s\<lparr>gameLoadingStatus := g\<rparr>) = quiz_part s"
  "quiz_part (s\<lparr>exitGameLoadingBtn_text := h\<rparr>) = quiz_part s"
  by (simp_all add: quiz_part_def)

lemma quiz_part_clearInterval [simp]: "quiz_part (clearInterval g s) = quiz_part s"
  by (simp add: clearInterval_def)

lemma quiz_part_abortHandler: "quiz_part (abortHandler g s) = quiz_part s"
  by (simp add: abortHandler_def Let_def) (simp add: quiz_part_def clearInterval_def)

lemma quiz_part_fold_abortHandler: "quiz_part (fold abortHandler gs s) = quiz_part s"
  by (induction gs arbitrary: s) (simp_all add: quiz_part_abortHandler)

lemma quiz_part_game_handlers:
  "quiz_part (startGameBtn_click s) = quiz_part s"
  "quiz_part (loadingInterval_tick g s) = quiz_part s"
  "quiz_part (exitGameLoadingBtn_click s) = quiz_part s"
  "quiz_part (flashcardContainer_click s) = quiz_part s"
  "quiz_part (state_of (knewItBtn_click js s)) = quiz_part s"
  "quiz_part (state_of (didntKnowBtn_click js s)) = quiz_part s"
  "quiz_part (state_of (restartGameBtn_click js s)) = quiz_part s"
  "quiz_part (exitGameBtn_click s) = quiz_part s"
proof -
  show "quiz_part (startGameBtn_click s) = quiz_part s"
    by (simp add: startGameBtn_click_def quiz_part_def split: option.splits)
  show "quiz_part (loadingInterval_tick g s) = quiz_part s"
    by (simp add: loadingInterval_tick_def Let_def split: option.splits)
  show "quiz_part (exitGameLoadingBtn_click s) = quiz_part s"
    by (simp add: exitGameLoadingBtn_click_def quiz_part_fold_abortHandler)
  show "quiz_part (flashcardContainer_click s) = quiz_part s"
    by (simp add: flashcardContainer_click_def Let_def quiz_part_def)
  show "quiz_part (state_of (knewItBtn_click js s)) = quiz_part s"
    by (simp add: knewItBtn_click_def quiz_part_advanceCard)
  show "quiz_part (state_of (didntKnowBtn_click js s)) = quiz_part s"
    by (simp add: didntKnowBtn_click_def quiz_part_advanceCard)
  show "quiz_part (state_of (restartGameBtn_click js s)) = quiz_part s"
    by (simp add: restartGameBtn_click_def quiz_part_startGame)
  show "quiz_part (exitGameBtn_click s) = quiz_part s"
    by (simp add: exitGameBtn_click_def quiz_part_def)
qed

lemma quiz_part_gameTry: "quiz_part (state_of (gameTry js g r s)) = quiz_part s"
  by (simp add: gameTry_def Let_def quiz_part_startGame
        split: reply.splits sum.splits option.splits)

lemma quiz_part_startGameBtn_resume: "quiz_part (startGameBtn_resume js g r s) = quiz_part s"
  using quiz_part_gameTry[of js g r s]
  by (cases "gameTry js g r s") (simp_all add: startGameBtn_resume_def)

lemma quiz_part_clearHistory: "quiz_part (clearHistory c out s) = quiz_part s"
  by (simp add: clearHistory_def quiz_part_def split: sum.splits)

lemma quiz_part_otherHandler: "quiz_part (otherHandler p s) = quiz_part s"
  by (simp add: otherHandler_def quiz_part_def)

lemma quiz_inv_fire:
  assumes "quiz_inv js s"
  shows "quiz_inv js (state_of (fire js e s))"
proof (cases e)
  case StartQuizBtnClick
  with assms show ?thesis by (simp add: quiz_inv_startQuizBtn_click)
next
  case (QuizReply r)
  with assms show ?thesis by (simp add: quiz_inv_startQuizBtn_resume)
next
  case QuizErrorTimeout
  with assms show ?thesis by (simp add: quiz_inv_quizErrorTimeout)
next
  case (OptionBtnClick k)
  with assms show ?thesis by (simp add: quiz_inv_optionBtn_click)
next
  case NextQuestionBtnClick
  with assms show ?thesis by (simp add: quiz_inv_nextQuestionBtn_click)
next
  case ReviewMistakesBtnClick
  with assms show ?thesis by (simp add: quiz_inv_reviewMistakesBtn_click)
next
  case RestartQuizBtnClick
  with assms show ?thesis by (simp add: restartQuizBtn_click_def quiz_inv_startQuiz)
next
  case ExitQuizBtnClick
  with assms show ?thesis by (simp add: quiz_inv_exitQuizBtn_click)
next
  case StartGameBtnClick
  with assms show ?thesis by (simp add: quiz_inv_quiz_part quiz_part_game_handlers)
next
  case (GameReply g r)
  with assms show ?thesis by (simp add: quiz_inv_quiz_part quiz_part_startGameBtn_resume)
next
  case (LoadingIntervalTick g)
  with assms show ?thesis by (simp add: quiz_inv_quiz_part quiz_part_game_handlers)
next
  case ExitGameLoadingBtnClick
  with assms show ?thesis by (simp add: quiz_inv_quiz_part quiz_part_game_handlers)
next
  case FlashcardContainerClick
  with assms show ?thesis by (simp add: quiz_inv_quiz_part quiz_part_game_handlers)
next
  case KnewItBtnClick
  with assms show ?thesis by (simp add: quiz_inv_quiz_part quiz_part_game_handlers)
next
  case DidntKnowBtnClick
  with assms show ?thesis by (simp add: quiz_inv_quiz_part quiz_part_game_handlers)
next
  case RestartGameBtnClick
  with assms show ?thesis by (simp add: quiz_inv_quiz_part quiz_part_game_handlers)
next
  case ExitGameBtnClick
  with assms show ?thesis by (simp add: quiz_inv_quiz_part quiz_part_game_handlers)
next
  case (HistoryItemClick i)
  with assms show ?thesis by (simp add: quiz_inv_loadHistoryItem)
next
  case (ClearHistoryBtnClick c out)
  with assms show ?thesis by (simp add: quiz_inv_quiz_part quiz_part_clearHistory)
next
  case (OtherHandler p)
  with assms show ?thesis by (simp add: quiz_inv_quiz_part quiz_part_otherHandler)
qed

lemma reachable_inv:
  assumes "reachable js s"
  shows "quiz_inv js s"
  using assms
  by (induction rule: reachable.induct) (simp_all add: quiz_inv_initial quiz_inv_fire)

lemma reachable_play:
  assumes "reachable js s"
  shows "reachable js (play js es s)"
  using assms
  by (induction es arbitrary: s) (simp_all add: play_def reachable_fire)

lemma reachable_uploaded: "reachable js uploaded"
proof -
  have "state_of (fire js (OtherHandler uploaded) initial) = uploaded"
    by (simp add: otherHandler_def uploaded_def initial_def)
  with reachable_fire[OF reachable_initial, of js "OtherHandler uploaded"] show ?thesis by simp
qed

lemma reachable_examples:
  "reachable example_engine example_results" "reachable example_engine example_review"
  "reachable example_engine example_game" "reachable example_engine example_loading"
  "reachable example_engine example_exited" "reachable example_engine example_reloading"
  unfolding example_results_def example_review_def example_game_def example_loading_def
    example_exited_def example_reloading_def
  by (intro reachable_play reachable_uploaded)+

section \<open>Quiz: review of mistakes\<close>

lemma review_pass_keeps_score:
  "score (state_of (fire js ReviewMistakesBtnClick t)) = score t"
  "incorrectAnswers (state_of (fire js ReviewMistakesBtnClick t)) = incorrectAnswers t"
  "isReviewingMistakes t \<Longrightarrow> score (state_of (fire js NextQuestionBtnClick t)) = score t"
  "isReviewingMistakes t \<Longrightarrow>
     incorrectAnswers (state_of (fire js NextQuestionBtnClick t)) = incorrectAnswers t"
  by (simp_all add: reviewMistakesBtn_click_def nextQuestionBtn_click_def displayMistake_keeps
        showResults_keeps Let_def)

lemma example_review_fields:
  "isReviewingMistakes example_review" "quizContent_shown example_review"
  "\<not> nextQuestionBtn_hidden example_review" "currentQuestionIndex example_review = 0"
  "incorrectAnswers example_review =
     [\<lparr>mistake_question = Some (questionJSON q2), selected = str ''3''\<rparr>]"
  "score example_review = 1" "quizQuestions example_review = JArray example_quiz"
  by code_simp+

text \<open>
  Claim C7 says that the results shown after a review suppress the review option. On the
  example, the only mistake is under review; the click on next shows the results with
  \<^verbatim>\<open>reviewMistakesBtn\<close> shown again.
\<close>

theorem review_offered_again:
  "isReviewingMistakes example_review \<and>
   currentQuestionIndex example_review + 1 = length (incorrectAnswers example_review) \<and>
   results_shown (state_of (fire example_engine NextQuestionBtnClick example_review)) \<and>
   \<not> reviewMistakesBtn_hidden (state_of (fire example_engine NextQuestionBtnClick example_review))"
  by code_simp

text \<open>
  Claim C7, amended. In every reachable state in which the last mistake is under review, the
  click on next ends the review and shows the results, and \<open>showResults\<close> decides the review
  option by the same test as before; since the review changed neither the score nor the
  mistake log, the option is offered again. Neither the click that starts a review nor a
  click on next during a review changes the score or the mistake log.
\<close>

theorem review_ends_in_results:
  assumes "reachable js s" and "isReviewingMistakes s"
    and "quizContent_shown s" and "\<not> nextQuestionBtn_hidden s"
    and "currentQuestionIndex s + 1 = length (incorrectAnswers s)"
  shows "results_shown (state_of (fire js NextQuestionBtnClick s)) \<and>
         \<not> isReviewingMistakes (state_of (fire js NextQuestionBtnClick s)) \<and>
         \<not> reviewMistakesBtn_hidden (state_of (fire js NextQuestionBtnClick s)) \<and>
         score (state_of (fire js NextQuestionBtnClick s)) = score s \<and>
         incorrectAnswers (state_of (fire js NextQuestionBtnClick s)) = incorrectAnswers s \<and>
         score (state_of (fire js ReviewMistakesBtnClick t)) = score t \<and>
         incorrectAnswers (state_of (fire js ReviewMistakesBtnClick t)) = incorrectAnswers t \<and>
         (isReviewingMistakes t \<longrightarrow>
            score (state_of (fire js NextQuestionBtnClick t)) = score t \<and>
            incorrectAnswers (state_of (fire js NextQuestionBtnClick t)) = incorrectAnswers t)"
proof -
  let ?s1 = "s\<lparr>currentQuestionIndex := currentQuestionIndex s + 1, isReviewingMistakes := False\<rparr>"
  from reachable_inv[OF assms(1)] assms(2) have "reviewCondition js s" by (simp add: quiz_inv_def)
  then have rc: "reviewCondition js ?s1" by (simp add: reviewCondition_def)
  then have nt: "\<not> throws (showResults js ?s1)" by (rule showResults_button(3))
  have "fire js NextQuestionBtnClick s = showResults js ?s1"
    using assms(2,3,4,5) by (simp add: nextQuestionBtn_click_def Let_def)
  then have "results_shown (state_of (fire js NextQuestionBtnClick s)) \<and>
         \<not> isReviewingMistakes (state_of (fire js NextQuestionBtnClick s)) \<and>
         \<not> reviewMistakesBtn_hidden (state_of (fire js NextQuestionBtnClick s)) \<and>
         score (state_of (fire js NextQuestionBtnClick s)) = score s \<and>
         incorrectAnswers (state_of (fire js NextQuestionBtnClick s)) = incorrectAnswers s"
    using rc showResults_button(1)[OF nt] by (simp add: showResults_keeps)
  with review_pass_keeps_score[where js = js and t = t] show ?thesis by blast
qed

text \<open>The amended claim C7 on the example review.\<close>

theorem review_ends_in_results_witness:
  "isReviewingMistakes example_review \<and> quizContent_shown example_review \<and>
   \<not> nextQuestionBtn_hidden example_review \<and>
   currentQuestionIndex example_review + 1 = length (incorrectAnswers example_review) \<and>
   \<not> reviewMistakesBtn_hidden (state_of (fire example_engine NextQuestionBtnClick example_review)) \<and>
   score (state_of (fire example_engine NextQuestionBtnClick example_review)) = 1"
  using review_ends_in_results[OF reachable_examples(2), where t = example_review]
  by (simp add: example_review_fields)

section \<open>Quiz: one evaluation per question\<close>

lemma optionBtn_click_all_disabled:
  assumes "\<forall>b \<in> set (quizOptionsEl s). disabled b"
  shows "optionBtn_click js k s = Normal s"
  using assms by (auto simp add: optionBtn_click_def elemAt_def)

lemma option_clicks_all_disabled:
  assumes "\<forall>b \<in> set (quizOptionsEl s). disabled b"
  shows "play js (map OptionBtnClick ks) s = s"
  using assms by (induction ks) (simp_all add: optionBtn_click_all_disabled)

lemma optionBtn_click_out_of_range:
  assumes "presenting items j q s" "\<not> k < length (options q)"
  shows "optionBtn_click js k s = Normal s"
  using assms by (simp add: presenting_def optionBtn_click_def elemAt_def)

lemma presenting_evaluates:
  assumes "presenting items j q s"
  shows "\<not> throws (handleOptionClick js (JString a) (Some (JString c)) k s)"
  using assms by (intro handleOptionClick_strings) (simp add: presenting_def)

lemma option_clicks_presenting:
  assumes "presenting items j q s"
  shows "play js (map OptionBtnClick ks) s =
           (case find (\<lambda>k. k < length (options q)) ks of
              None \<Rightarrow> s
            | Some k \<Rightarrow>
                state_of (handleOptionClick js (JString (options q ! k))
                            (Some (JString (correctAnswer q))) k s))"
proof (induction ks)
  case Nil
  show ?case by simp
next
  case (Cons k ks)
  from assms have shown: "quizContent_shown s" by (simp add: presenting_def)
  show ?case
  proof (cases "k < length (options q)")
    case True
    let ?c = "handleOptionClick js (JString (options q ! k)) (Some (JString (correctAnswer q))) k s"
    have "\<forall>b \<in> set (quizOptionsEl (state_of ?c)). disabled b"
      by (rule handleOptionClick_completes(1)) (rule presenting_evaluates[OF assms])
    then have "play js (map OptionBtnClick ks) (state_of ?c) = state_of ?c"
      by (rule option_clicks_all_disabled)
    with True shown presenting_click[OF assms True] show ?thesis by simp
  next
    case False
    with shown optionBtn_click_out_of_range[OF assms False] Cons.IH show ?thesis by simp
  qed
qed

lemma handleOptionClick_throws:
  assumes "throws (handleOptionClick js a c k s)"
  shows "score (state_of (handleOptionClick js a c k s)) = score s"
    and "incorrectAnswers (state_of (handleOptionClick js a c k s)) = incorrectAnswers s"
  using assms
  by (auto simp add: handleOptionClick_def Let_def split: option.splits if_splits)

lemma quiz_part_index: "quiz_part s' = quiz_part s \<Longrightarrow> currentQuestionIndex s' = currentQuestionIndex s"
  by (simp add: quiz_part_def)

lemma index_after_event:
  assumes "e \<noteq> NextQuestionBtnClick"
  shows "currentQuestionIndex (state_of (fire js e s)) \<le> currentQuestionIndex s"
proof (cases e)
  case (QuizReply r)
  from quizTry_outcomes[of js r s] show ?thesis
  proof
    assume "\<exists>e. quizTry js r s = Throw e s"
    then obtain e' where "quizTry js r s = Throw e' s" by blast
    then show ?thesis using QuizReply by (simp add: startQuizBtn_resume_throw)
  next
    assume "\<exists>v. quizTry js r s =
           startQuiz js (s\<lparr>quizQuestions := v, quizLoadingContainer_hidden := True,
                           quizContentContainer_hidden := False\<rparr>)"
    then obtain v where v: "quizTry js r s =
           startQuiz js (s\<lparr>quizQuestions := v, quizLoadingContainer_hidden := True,
                           quizContentContainer_hidden := False\<rparr>)" by blast
    let ?c = "startQuiz js (s\<lparr>quizQuestions := v, quizLoadingContainer_hidden := True,
                           quizContentContainer_hidden := False\<rparr>)"
    have "currentQuestionIndex (state_of ?c) = 0" by (rule startQuiz_fields(1))
    then have "currentQuestionIndex (startQuizBtn_resume js r s) = 0"
      by (cases ?c) (simp_all add: startQuizBtn_resume_def v)
    then show ?thesis using QuizReply by simp
  qed
next
  case (OptionBtnClick k)
  then show ?thesis
    by (simp add: optionBtn_click_def handleOptionClick_keeps split: option.splits)
next
  case ReviewMistakesBtnClick
  then show ?thesis
    by (simp add: reviewMistakesBtn_click_def displayMistake_keeps)
next
  case (HistoryItemClick i)
  then show ?thesis
    by (simp add: loadHistoryItem_def closeSidebar_def split: option.splits)
next
  case (GameReply g r)
  then show ?thesis by (simp add: quiz_part_index[OF quiz_part_startGameBtn_resume])
next
  case NextQuestionBtnClick
  with assms show ?thesis by simp
qed (simp_all add: startQuizBtn_click_def quizErrorTimeout_def restartQuizBtn_click_def
      startQuiz_fields exitQuizBtn_click_fields quiz_part_index[OF quiz_part_clearHistory]
      quiz_part_index[OF quiz_part_otherHandler]
      quiz_part_game_handlers[THEN quiz_part_index] split: option.splits)

text \<open>
  Claim C9. While a question is on display and unanswered, next cannot be clicked. Of any
  sequence of clicks on option buttons, the first that hits a button is evaluated by
  \<open>handleOptionClick\<close>, once, and every other click changes nothing, because a call of
  \<open>handleOptionClick\<close> that runs to its end disables every button. A call with two strings
  runs to its end; a call that throws has changed neither the score nor the mistake log. So
  the score and the mistake log change at most once per question. The clicks leave the index where it is: no event but the click on
  next ever raises the index.
\<close>

theorem one_evaluation_per_question:
  assumes "presenting items j q s"
  shows "play js (map OptionBtnClick ks) s =
           (case find (\<lambda>k. k < length (options q)) ks of
              None \<Rightarrow> s
            | Some k \<Rightarrow>
                state_of (handleOptionClick js (JString (options q ! k))
                            (Some (JString (correctAnswer q))) k s)) \<and>
         \<not> throws (handleOptionClick js (JString (options q ! k'))
                      (Some (JString (correctAnswer q))) k' s) \<and>
         (quizQuestions t \<noteq> JNull \<longrightarrow>
            \<not> throws (handleOptionClick js (JString a') (Some (JString c')) k t)) \<and>
         currentQuestionIndex (play js (map OptionBtnClick ks) s) = j \<and>
         fire js NextQuestionBtnClick s = Normal s \<and>
         (\<not> throws (handleOptionClick js a c k t) \<longrightarrow>
            list_all disabled (quizOptionsEl (state_of (handleOptionClick js a c k t))) \<and>
            play js (map OptionBtnClick ks) (state_of (handleOptionClick js a c k t)) =
              state_of (handleOptionClick js a c k t)) \<and>
         (throws (handleOptionClick js a c k t) \<longrightarrow>
            score (state_of (handleOptionClick js a c k t)) = score t \<and>
            incorrectAnswers (state_of (handleOptionClick js a c k t)) = incorrectAnswers t) \<and>
         (e \<noteq> NextQuestionBtnClick \<longrightarrow>
            currentQuestionIndex (state_of (fire js e t)) \<le> currentQuestionIndex t)"
proof -
  have dis: "\<not> throws (handleOptionClick js a c k t) \<longrightarrow>
            list_all disabled (quizOptionsEl (state_of (handleOptionClick js a c k t))) \<and>
            play js (map OptionBtnClick ks) (state_of (handleOptionClick js a c k t)) =
              state_of (handleOptionClick js a c k t)"
    using handleOptionClick_completes(1)[where js = js and a = a and c = c and b = k and s = t]
    by (auto simp add: list_all_iff intro: option_clicks_all_disabled)
  have thr: "throws (handleOptionClick js a c k t) \<longrightarrow>
            score (state_of (handleOptionClick js a c k t)) = score t \<and>
            incorrectAnswers (state_of (handleOptionClick js a c k t)) = incorrectAnswers t"
    using handleOptionClick_throws[where js = js and a = a and c = c and k = k and s = t] by blast
  from assms have j: "currentQuestionIndex s = j" and "nextQuestionBtn_hidden s"
    by (simp_all add: presenting_def)
  then have nx: "fire js NextQuestionBtnClick s = Normal s" by simp
  have ix: "currentQuestionIndex (play js (map OptionBtnClick ks) s) = j"
    using j by (simp add: option_clicks_presenting[OF assms] handleOptionClick_keeps split: option.splits)
  from dis thr nx ix option_clicks_presenting[OF assms, where js = js and ks = ks] presenting_evaluates[OF assms]
    index_after_event[where e = e and js = js and s = t]
    handleOptionClick_strings[where s = t and js = js and a = a' and c = c' and b = k]
  show ?thesis by blast
qed

text \<open>Claim C9 on the first question of the example quiz: three clicks, the first on \<open>Rome\<close>.\<close>

theorem one_evaluation_per_question_witness:
  "presenting example_quiz 0 q1
     (startQuizBtn_resume example_engine (Parsed (quizReply example_quiz)) uploaded) \<and>
   play example_engine (map OptionBtnClick [1, 0, 1])
     (startQuizBtn_resume example_engine (Parsed (quizReply example_quiz)) uploaded) =
     state_of (handleOptionClick example_engine (JString (str ''Rome'')) (Some (JString (str '' paris ''))) 1
       (startQuizBtn_resume example_engine (Parsed (quizReply example_quiz)) uploaded)) \<and>
   currentQuestionIndex
     (play example_engine (map OptionBtnClick [1, 0, 1])
        (startQuizBtn_resume example_engine (Parsed (quizReply example_quiz)) uploaded)) = 0"
proof -
  have p: "presenting example_quiz 0 q1
     (startQuizBtn_resume example_engine (Parsed (quizReply example_quiz)) uploaded)"
    by (rule startQuizBtn_resume_array(6)) (simp_all add: example_replies example_quiz_def)
  have "find (\<lambda>k. k < length (options q1)) [1, 0, 1] = Some 1"
    "options q1 ! 1 = str ''Rome''" "correctAnswer q1 = str '' paris ''"
    by (simp_all add: q1_def)
  with one_evaluation_per_question[OF p, where ks = "[1, 0, 1]" and a = "JString (str ''Rome'')"
      and c = "Some (JString (str '' paris ''))" and k = 1 and k' = 1 and t = uploaded
      and a' = "str ''Rome''" and c' = "str '' paris ''"
      and e = ExitQuizBtnClick and js = example_engine] p
  show ?thesis
    by (auto simp del: play_Cons play_Nil fire.simps)
qed

section \<open>Flashcards: the index of the current card\<close>

lemma example_game_fields:
  "gameContainer_shown example_game" "\<not> gameControls_hidden example_game"
  "currentCardIndex example_game = 0" "flashcards example_game = JArray [flashcardJSON card1]"
  by code_simp+

text \<open>
  Claim C3 says that the index of the flashcards is within \<open>[0, length]\<close> of the deck in every
  reachable state. \<^verbatim>\<open>exitGameBtn\<close> empties the deck and leaves \<^verbatim>\<open>currentCardIndex\<close> as it is,
  where \<^verbatim>\<open>exitQuizBtn\<close> resets \<^verbatim>\<open>currentQuestionIndex\<close> to 0. On the example, a deck of one card
  is answered (the index becomes 1 and the results are shown) and left: the page is idle with
  an empty deck and the index 1, and it still is after the next click on \<^verbatim>\<open>startGameBtn\<close>,
  while the new deck is being generated. The exit of the quiz on the example results leaves
  the index 0.
\<close>

theorem card_index_after_exit:
  "reachable example_engine example_exited \<and>
   gameSection_hidden example_exited \<and> \<not> qaSection_hidden example_exited \<and>
   flashcards example_exited = JArray [] \<and> currentCardIndex example_exited = 1 \<and>
   reachable example_engine example_reloading \<and> gameLoading_shown example_reloading \<and>
   flashcards example_reloading = JArray [] \<and> currentCardIndex example_reloading = 1 \<and>
   quizQuestions (state_of (fire example_engine ExitQuizBtnClick example_results)) = JArray [] \<and>
   currentQuestionIndex (state_of (fire example_engine ExitQuizBtnClick example_results)) = 0"
proof -
  have "gameSection_hidden example_exited" "\<not> qaSection_hidden example_exited"
    "flashcards example_exited = JArray []" "currentCardIndex example_exited = 1"
    "gameLoading_shown example_reloading"
    "flashcards example_reloading = JArray []" "currentCardIndex example_reloading = 1"
    by code_simp+
  then show ?thesis
    by (simp add: reachable_examples example_results_fields exitQuizBtn_click_fields)
qed

section \<open>Flashcards: cancellation\<close>

lemma updateAt_length [simp]: "length (updateAt i f xs) = length xs"
  by (simp add: updateAt_def)

lemma nth_updateAt:
  "j < length xs \<Longrightarrow> updateAt i f xs ! j = (if j = i then f (xs ! j) else xs ! j)"
  by (simp add: updateAt_def)

lemma abortHandler_fields:
  "length (generations (abortHandler g s)) = length (generations s)"
  "flashcards (abortHandler g s) = flashcards s"
  "gameLoadingStatus (abortHandler g s) = gameLoadingStatus s"
  "exitGameLoadingBtn_text (abortHandler g s) = exitGameLoadingBtn_text s"
  "gameSection_hidden (abortHandler g s)"
  "gameLoadingContainer_hidden (abortHandler g s)"
  "\<not> qaSection_hidden (abortHandler g s)"
  "\<not> askBtn_disabled (abortHandler g s)"
  "\<not> startQuizBtn_disabled (abortHandler g s)"
  "\<not> startGameBtn_disabled (abortHandler g s)"
  by (simp_all add: abortHandler_def clearInterval_def Let_def)

lemma abortHandler_aborts:
  "signal_aborted g' (abortHandler g s) =
     (signal_aborted g' s \<or> (g' = g \<and> g < length (generations s)))"
  by (auto simp add: abortHandler_def clearInterval_def Let_def signal_aborted_def
        nth_updateAt elemAt_def split: option.splits)

lemma fold_abortHandler_fields:
  "length (generations (fold abortHandler gs s)) = length (generations s)"
  "flashcards (fold abortHandler gs s) = flashcards s"
  "gameLoadingStatus (fold abortHandler gs s) = gameLoadingStatus s"
  "exitGameLoadingBtn_text (fold abortHandler gs s) = exitGameLoadingBtn_text s"
  by (induction gs arbitrary: s) (simp_all add: abortHandler_fields)

lemma fold_abortHandler_idle:
  assumes "gs \<noteq> []"
  shows "gameSection_hidden (fold abortHandler gs s) \<and>
         gameLoadingContainer_hidden (fold abortHandler gs s) \<and>
         \<not> qaSection_hidden (fold abortHandler gs s) \<and>
         \<not> askBtn_disabled (fold abortHandler gs s) \<and>
         \<not> startQuizBtn_disabled (fold abortHandler gs s) \<and>
         \<not> startGameBtn_disabled (fold abortHandler gs s)"
  using assms
proof (induction gs arbitrary: s rule: rev_induct)
  case Nil
  then show ?case by simp
next
  case (snoc g gs)
  show ?case by (simp add: abortHandler_fields)
qed

lemma fold_abortHandler_aborts:
  "signal_aborted g (fold abortHandler gs s) =
     (signal_aborted g s \<or> (g \<in> set gs \<and> g < length (generations s)))"
  by (induction gs arbitrary: s) (auto simp add: abortHandler_aborts abortHandler_fields)

lemma resume_after_abort:
  assumes "signal_aborted g s"
  shows "startGameBtn_resume js g r s = s"
  using assms
  by (cases r) (simp_all add: startGameBtn_resume_def gameTry_def)

lemma generations_quiz_handlers:
  "generations (startQuizBtn_click s) = generations s"
  "generations (startQuizBtn_resume js r s) = generations s"
  "generations (quizErrorTimeout s) = generations s"
  "generations (state_of (optionBtn_click js k s)) = generations s"
  "generations (state_of (nextQuestionBtn_click js s)) = generations s"
  "generations (state_of (reviewMistakesBtn_click js s)) = generations s"
  "generations (state_of (restartQuizBtn_click js s)) = generations s"
  "generations (exitQuizBtn_click s) = generations s"
  "generations (loadHistoryItem i s) = generations s"
  "generations (clearHistory c out s) = generations s"
  "generations (otherHandler p s) = generations s"
proof -
  note dq = displayCurrentQuestion_keeps(11)
  note dm = displayMistake_keeps(11)
  note sq = startQuiz_fields(10)
  have qt: "generations (state_of (quizTry js r t)) = generations t" for t
    by (simp add: quizTry_def sq split: reply.splits sum.splits option.splits)
  show "generations (startQuizBtn_click s) = generations s"
    by (simp add: startQuizBtn_click_def split: option.splits)
  show "generations (startQuizBtn_resume js r s) = generations s"
    using qt[of s] by (cases "quizTry js r s") (simp_all add: startQuizBtn_resume_def)
  show "generations (quizErrorTimeout s) = generations s"
    by (simp add: quizErrorTimeout_def)
  show "generations (state_of (optionBtn_click js k s)) = generations s"
    by (simp add: optionBtn_click_def handleOptionClick_keeps split: option.splits)
  show "generations (state_of (nextQuestionBtn_click js s)) = generations s"
    by (simp add: nextQuestionBtn_click_def Let_def dq dm showResults_keeps split: option.splits)
  show "generations (state_of (reviewMistakesBtn_click js s)) = generations s"
    by (simp add: reviewMistakesBtn_click_def dm)
  show "generations (state_of (restartQuizBtn_click js s)) = generations s"
    by (simp add: restartQuizBtn_click_def sq)
  show "generations (exitQuizBtn_click s) = generations s"
    by (simp add: exitQuizBtn_click_def)
  show "generations (loadHistoryItem i s) = generations s"
    by (simp add: loadHistoryItem_def closeSidebar_def split: option.splits)
  show "generations (clearHistory c out s) = generations s"
    by (simp add: clearHistory_def split: sum.splits)
  show "generations (otherHandler p s) = generations s"
    by (simp add: otherHandler_def)
qed

lemma generations_displayCurrentCard:
  "generations (state_of (displayCurrentCard js s)) = generations s"
  by (simp add: displayCurrentCard_def showGameResults_def Let_def split: option.splits)

lemma generations_game_handlers:
  "generations (flashcardContainer_click s) = generations s"
  "generations (state_of (knewItBtn_click js s)) = generations s"
  "generations (state_of (didntKnowBtn_click js s)) = generations s"
  "generations (state_of (restartGameBtn_click js s)) = generations s"
  "generations (exitGameBtn_click s) = generations s"
  by (simp_all add: flashcardContainer_click_def knewItBtn_click_def didntKnowBtn_click_def
        restartGameBtn_click_def exitGameBtn_click_def advanceCard_def startGame_def
        generations_displayCurrentCard Let_def)

lemma signal_aborted_cong:
  assumes "generations s' = generations s"
  shows "signal_aborted g s' = signal_aborted g s"
  using assms by (simp add: signal_aborted_def)

lemma aborted_kept:
  assumes "signal_aborted g s" "generations s' = generations s"
  shows "signal_aborted g s'"
  using assms by (simp add: signal_aborted_def)

lemma signal_aborted_clearInterval: "signal_aborted g (clearInterval g' s) = signal_aborted g s"
  by (auto simp add: signal_aborted_def clearInterval_def elemAt_def nth_updateAt)

lemma signal_aborted_startGame: "signal_aborted g (state_of (startGame js s)) = signal_aborted g s"
  by (rule signal_aborted_cong) (simp add: startGame_def generations_displayCurrentCard)

lemma signal_aborted_gameTry:
  "signal_aborted g (state_of (gameTry js g' r s)) = signal_aborted g s"
proof -
  have 1: "signal_aborted g ((clearInterval g' s)\<lparr>exitListeners := ls\<rparr>) = signal_aborted g s" for ls
    using signal_aborted_clearInterval[of g g' s] by (simp add: signal_aborted_def)
  have 2: "signal_aborted g
             (state_of (startGame js ((clearInterval g' s)\<lparr>exitListeners := ls, flashcards := fs,
                gameLoadingContainer_hidden := True, gameContainer_hidden := False\<rparr>))) =
           signal_aborted g s" for ls fs
    using signal_aborted_clearInterval[of g g' s]
    by (simp add: signal_aborted_startGame) (simp add: signal_aborted_def)
  show ?thesis
    by (simp add: gameTry_def Let_def 1 2 split: reply.splits sum.splits option.splits)
qed

lemma signal_aborted_resume:
  "signal_aborted g (startGameBtn_resume js g' r s) = signal_aborted g s"
proof (cases "gameTry js g' r s")
  case (Normal s')
  with signal_aborted_gameTry[of g js g' r s] show ?thesis by (simp add: startGameBtn_resume_def)
next
  case (Throw e s')
  have "signal_aborted g ((clearInterval g' s')\<lparr>gameLoadingStatus := a, exitGameLoadingBtn_text := b\<rparr>) =
        signal_aborted g s'" for a b
    using signal_aborted_clearInterval[of g g' s'] by (simp add: signal_aborted_def)
  with Throw signal_aborted_gameTry[of g js g' r s] show ?thesis
    by (simp add: startGameBtn_resume_def)
qed

lemma aborted_stays:
  assumes "signal_aborted g s"
  shows "signal_aborted g (state_of (fire js e s))"
proof (cases e)
  case StartGameBtnClick
  with assms show ?thesis
    by (auto simp add: startGameBtn_click_def signal_aborted_def elemAt_def nth_append
          split: option.splits if_splits)
next
  case (GameReply g' r)
  with assms show ?thesis by (simp add: signal_aborted_resume)
next
  case (LoadingIntervalTick g')
  with assms show ?thesis
    by (auto simp add: loadingInterval_tick_def Let_def signal_aborted_def elemAt_def nth_updateAt
          split: option.splits if_splits)
next
  case ExitGameLoadingBtnClick
  from assms have "signal_aborted g (s\<lparr>exitListeners := []\<rparr>)" by (simp add: signal_aborted_def)
  with ExitGameLoadingBtnClick assms show ?thesis
    by (simp add: exitGameLoadingBtn_click_def fold_abortHandler_aborts)
qed (auto intro!: aborted_kept[OF assms]
      simp add: generations_quiz_handlers generations_game_handlers)

lemma aborted_stays_play:
  assumes "signal_aborted g s"
  shows "signal_aborted g (play js es s)"
  using assms by (induction es arbitrary: s) (simp_all add: aborted_stays del: fire.simps)

text \<open>
  Claim C10. Flashcards are being generated: the cancel button is on display and the
  \<open>abortHandler\<close> of generation \<open>g\<close> is attached to it. The click on cancel returns the page
  to idle (the game section is hidden, the question section is shown, the three start
  buttons are enabled), leaves the flashcards as they were and shows no error: the status
  text and the text of the button are unchanged. From then on the signal of \<open>g\<close> is
  aborted, whatever events follow, and a reply for \<open>g\<close> that arrives after them,
  a result or an error, changes nothing at all.
\<close>

theorem cancelled_generation_is_discarded:
  assumes "gameLoading_shown s" and "g \<in> set (exitListeners s)"
    and "g < length (generations s)"
  shows "gameSection_hidden (state_of (fire js ExitGameLoadingBtnClick s)) \<and>
         \<not> qaSection_hidden (state_of (fire js ExitGameLoadingBtnClick s)) \<and>
         \<not> askBtn_disabled (state_of (fire js ExitGameLoadingBtnClick s)) \<and>
         \<not> startQuizBtn_disabled (state_of (fire js ExitGameLoadingBtnClick s)) \<and>
         \<not> startGameBtn_disabled (state_of (fire js ExitGameLoadingBtnClick s)) \<and>
         flashcards (state_of (fire js ExitGameLoadingBtnClick s)) = flashcards s \<and>
         gameLoadingStatus (state_of (fire js ExitGameLoadingBtnClick s)) = gameLoadingStatus s \<and>
         exitGameLoadingBtn_text (state_of (fire js ExitGameLoadingBtnClick s)) =
           exitGameLoadingBtn_text s \<and>
         signal_aborted g (play js es (state_of (fire js ExitGameLoadingBtnClick s))) \<and>
         state_of (fire js (GameReply g r) (play js es (state_of (fire js ExitGameLoadingBtnClick s)))) =
           play js es (state_of (fire js ExitGameLoadingBtnClick s))"
proof -
  let ?s0 = "s\<lparr>exitListeners := []\<rparr>"
  let ?s1 = "fold abortHandler (exitListeners s) ?s0"
  have s1: "state_of (fire js ExitGameLoadingBtnClick s) = ?s1"
    using assms(1) by (simp add: exitGameLoadingBtn_click_def)
  from assms(2) have ne: "exitListeners s \<noteq> []" by auto
  have "signal_aborted g ?s1"
    using assms(2,3) by (simp add: fold_abortHandler_aborts)
  then have ab: "signal_aborted g (play js es ?s1)" by (rule aborted_stays_play)
  then have "state_of (fire js (GameReply g r) (play js es ?s1)) = play js es ?s1"
    by (simp add: resume_after_abort)
  with ab fold_abortHandler_idle[OF ne, of ?s0] show ?thesis
    unfolding s1 by (simp add: fold_abortHandler_fields)
qed

lemma example_loading_fields:
  "gameLoading_shown example_loading" "exitListeners example_loading = [0]"
  "length (generations example_loading) = 1" "flashcards example_loading = JArray []"
  by code_simp+

text \<open>Claim C10 on the example: cancel, then the deck arrives late.\<close>

theorem cancelled_generation_is_discarded_witness:
  "gameLoading_shown example_loading \<and> 0 \<in> set (exitListeners example_loading) \<and>
   0 < length (generations example_loading) \<and>
   gameSection_hidden (state_of (fire example_engine ExitGameLoadingBtnClick example_loading)) \<and>
   flashcards (state_of (fire example_engine ExitGameLoadingBtnClick example_loading)) = JArray [] \<and>
   state_of (fire example_engine (GameReply 0 (Parsed (gameReply [flashcardJSON card1])))
               (play example_engine [] (state_of (fire example_engine ExitGameLoadingBtnClick example_loading)))) =
     play example_engine [] (state_of (fire example_engine ExitGameLoadingBtnClick example_loading))"
  using cancelled_generation_is_discarded[where s = example_loading and g = 0 and es = "[]"
      and r = "Parsed (gameReply [flashcardJSON card1])" and js = example_engine]
  by (simp add: example_loading_fields del: fire.simps play_Nil)


end
